theory Spec2Isabelle
  imports Complex_Main
begin

section \<open>Strings of the JavaScript runtime\<close>

text \<open>
  A JavaScript string is a sequence of code units. The model reads a text as a
  \<^typ>\<open>string\<close> whose characters are the code units below 256; every literal of the
  catalog and of the heuristics is ASCII. Indices and lengths are \<^typ>\<open>nat\<close>,
  scores are \<^typ>\<open>real\<close> (the sums of the source are taken exactly, not rounded to
  doubles), timestamps of \<open>Date.now()\<close> are \<^typ>\<open>int\<close>.
\<close>

definition isWordChar :: "char \<Rightarrow> bool" where
  \<comment> \<open>the class \<open>\w\<close>: \<open>[A-Za-z0-9_]\<close>\<close>
  "isWordChar c =
     (let n = (of_char c :: nat)
      in (48 \<le> n \<and> n \<le> 57) \<or> (65 \<le> n \<and> n \<le> 90) \<or> n = 95 \<or> (97 \<le> n \<and> n \<le> 122))"

definition isSpaceChar :: "char \<Rightarrow> bool" where
  \<comment> \<open>the class \<open>\s\<close> (white space and line terminators), which is also what \<open>trim\<close> strips\<close>
  "isSpaceChar c =
     (let n = (of_char c :: nat)
      in (9 \<le> n \<and> n \<le> 13) \<or> n = 32 \<or> n = 160)"

definition isDigitChar :: "char \<Rightarrow> bool" where
  "isDigitChar c = (let n = (of_char c :: nat) in 48 \<le> n \<and> n \<le> 57)"

definition isLineTerminator :: "char \<Rightarrow> bool" where
  "isLineTerminator c = (let n = (of_char c :: nat) in n = 10 \<or> n = 13)"

definition canonicalize :: "char \<Rightarrow> char" where
  \<comment> \<open>the case folding of the \<open>i\<close> flag, on ASCII: upper case\<close>
  "canonicalize c =
     (let n = (of_char c :: nat) in if 97 \<le> n \<and> n \<le> 122 then char_of (n - 32) else c)"

definition toLowerChar :: "char \<Rightarrow> char" where
  "toLowerChar c =
     (let n = (of_char c :: nat)
      in if (65 \<le> n \<and> n \<le> 90) \<or> (192 \<le> n \<and> n \<le> 214) \<or> (216 \<le> n \<and> n \<le> 222)
         then char_of (n + 32) else c)"

definition toLowerCase :: "string \<Rightarrow> string" where
  "toLowerCase s = map toLowerChar s"

fun startsWith :: "string \<Rightarrow> string \<Rightarrow> bool" where
  "startsWith s [] = True"
| "startsWith [] (w # ws) = False"
| "startsWith (c # cs) (w # ws) = (c = w \<and> startsWith cs ws)"

fun includes_str :: "string \<Rightarrow> string \<Rightarrow> bool" where
  \<comment> \<open>\<open>String.prototype.includes\<close>\<close>
  "includes_str [] w = (w = [])"
| "includes_str (c # cs) w = (startsWith (c # cs) w \<or> includes_str cs w)"

definition trim :: "string \<Rightarrow> string" where
  "trim s = rev (dropWhile isSpaceChar (rev (dropWhile isSpaceChar s)))"

fun join :: "string list \<Rightarrow> string" where
  \<comment> \<open>\<open>Array.prototype.join(' ')\<close>\<close>
  "join [] = []"
| "join [w] = w"
| "join (w # v # ws) = w @ CHR '' '' # join (v # ws)"

fun split_runs :: "(char \<Rightarrow> bool) \<Rightarrow> string \<Rightarrow> string list" where
  \<comment> \<open>\<open>text.split(/[...]+/)\<close>: the pieces between the maximal runs of separator
      characters (an empty piece before a leading and after a trailing run)\<close>
  "split_runs P [] = [[]]"
| "split_runs P (c # cs) =
     (if P c
      then (if (case cs of [] \<Rightarrow> False | d # _ \<Rightarrow> P d) then split_runs P cs
            else [] # split_runs P cs)
      else (case split_runs P cs of [] \<Rightarrow> [[c]] | w # ws \<Rightarrow> (c # w) # ws))"

definition isTerminator :: "char \<Rightarrow> bool" where
  \<comment> \<open>the class \<open>[.!?]\<close>\<close>
  "isTerminator c = (c = CHR ''.'' \<or> c = CHR ''!'' \<or> c = CHR ''?'')"

section \<open>Regular expressions\<close>

text \<open>
  The fragment of the regular expression language that the catalog and the heuristics
  use: literals, character classes, the word boundary \<open>\b\<close>, sequence, alternation and
  greedy repetition \<open>{m,n}\<close> (\<open>?\<close> is \<open>{0,1}\<close>, \<open>*\<close> is \<open>{0,}\<close>, \<open>+\<close> is \<open>{1,}\<close>).
  There are no back-references and no lazy quantifiers in the source, so groups are
  not recorded. The matcher walks the text by index, as the engine does.
\<close>

datatype cls = Word | Space | Digit | Dot | NoneOf string

datatype rx =
    Lit string
  | Cls cls
  | Bound
  | Seq rx rx
  | Alt rx rx
  | Rep nat "nat option" rx

fun in_cls :: "cls \<Rightarrow> char \<Rightarrow> bool" where
  "in_cls Word c = isWordChar c"
| "in_cls Space c = isSpaceChar c"
| "in_cls Digit c = isDigitChar c"
| "in_cls Dot c = (if isLineTerminator c then False else True)"
| "in_cls (NoneOf cs) c = (if c \<in> set cs then False else True)"

fun lit_match :: "bool \<Rightarrow> string \<Rightarrow> string \<Rightarrow> nat \<Rightarrow> nat list" where
  "lit_match ic s [] i = [i]"
| "lit_match ic s (w # ws) i =
     (if i < length s \<and> (if ic then canonicalize (s ! i) = canonicalize w else s ! i = w)
      then lit_match ic s ws (Suc i) else [])"

definition at_boundary :: "string \<Rightarrow> nat \<Rightarrow> bool" where
  \<comment> \<open>\<open>\b\<close>: exactly one of the two neighbours is a word character\<close>
  "at_boundary s i =
     (let a = (0 < i \<and> isWordChar (s ! (i - 1)));
          b = (i < length s \<and> isWordChar (s ! i))
      in (a \<and> (if b then False else True)) \<or> (b \<and> (if a then False else True)))"

fun rep_iter ::
  "(nat \<Rightarrow> nat list) \<Rightarrow> nat \<Rightarrow> nat \<Rightarrow> nat option \<Rightarrow> nat \<Rightarrow> nat list" where
  \<comment> \<open>greedy repetition: one more round first, stopping here last. Once the minimum is
      reached a round that consumes nothing is abandoned, so the number of rounds is at
      most the minimum plus the length of the remaining text: the second argument\<close>
  "rep_iter f 0 mn mx i = (if mn = 0 then [i] else [])"
| "rep_iter f (Suc k) mn mx i =
     (if mx = Some 0 then [i]
      else concat (map (rep_iter f k (mn - 1) (map_option (\<lambda>n. n - 1) mx))
             (filter (\<lambda>j. 0 < mn \<or> i < j) (f i)))
           @ (if mn = 0 then [i] else []))"

primrec rx_m :: "bool \<Rightarrow> string \<Rightarrow> rx \<Rightarrow> nat \<Rightarrow> nat list" where
  \<comment> \<open>the indices where a match starting at index \<open>i\<close> can end, in the order in which
      the backtracking matcher finds them; the first is the match\<close>
  "rx_m ic s (Lit w) i = lit_match ic s w i"
| "rx_m ic s (Cls k) i = (if i < length s \<and> in_cls k (s ! i) then [Suc i] else [])"
| "rx_m ic s Bound i = (if at_boundary s i then [i] else [])"
| "rx_m ic s (Seq a b) i = concat (map (rx_m ic s b) (rx_m ic s a i))"
| "rx_m ic s (Alt a b) i = rx_m ic s a i @ rx_m ic s b i"
| "rx_m ic s (Rep mn mx r) i = rep_iter (rx_m ic s r) (mn + (length s - i)) mn mx i"

fun scan :: "bool \<Rightarrow> string \<Rightarrow> rx \<Rightarrow> nat \<Rightarrow> nat \<Rightarrow> (nat \<times> nat) option" where
  \<comment> \<open>tries the start indices \<open>i\<close>, \<open>i + 1\<close>, ... (as many as the fourth argument says):
      the start and the end of the first match\<close>
  "scan ic s r 0 i = None"
| "scan ic s r (Suc k) i =
     (case rx_m ic s r i of [] \<Rightarrow> scan ic s r k (Suc i) | e # _ \<Rightarrow> Some (i, e))"

definition rx_search :: "bool \<Rightarrow> string \<Rightarrow> rx \<Rightarrow> nat \<Rightarrow> (nat \<times> nat) option" where
  \<comment> \<open>the leftmost match that starts at index \<open>start\<close> or later\<close>
  "rx_search ic s r start = scan ic s r (Suc (length s) - start) start"

definition rx_test :: "rx \<Rightarrow> string \<Rightarrow> bool" where
  \<comment> \<open>\<open>/r/.test(s)\<close> for a regular expression literal without flags: no state\<close>
  "rx_test r s = (case rx_search False s r 0 of None \<Rightarrow> False | Some _ \<Rightarrow> True)"

text \<open>
  A regular expression object with the \<open>g\<close> flag keeps \<open>lastIndex\<close>: \<open>exec\<close> and
  \<open>test\<close> start there, leave the end of the match there, and reset it to 0 when
  they fail. Every pattern of the catalog is such an object (\<open>/.../gi\<close>); \<open>oid\<close>
  identifies the object, and the heap maps it to its \<open>lastIndex\<close>.
\<close>

record regexp =
  oid :: nat
  body :: rx
  flag_i :: bool
  flag_g :: bool

type_synonym heap = "nat \<Rightarrow> nat"

definition regex_exec :: "regexp \<Rightarrow> string \<Rightarrow> heap \<Rightarrow> (nat \<times> string) option \<times> heap" where
  \<comment> \<open>\<open>re.exec(s)\<close>: the index and the text of the match\<close>
  "regex_exec re s h =
     (let start = (if flag_g re then h (oid re) else 0)
      in if length s < start then (None, if flag_g re then h(oid re := 0) else h)
         else
           (case rx_search (flag_i re) s (body re) start of
              None \<Rightarrow> (None, if flag_g re then h(oid re := 0) else h)
            | Some (i, e) \<Rightarrow>
                (Some (i, take (e - i) (drop i s)), if flag_g re then h(oid re := e) else h)))"

definition regex_test :: "regexp \<Rightarrow> string \<Rightarrow> heap \<Rightarrow> bool \<times> heap" where
  \<comment> \<open>\<open>re.test(s)\<close> is \<open>re.exec(s) !== null\<close>\<close>
  "regex_test re s h =
     (case regex_exec re s h of (None, h') \<Rightarrow> (False, h') | (Some _, h') \<Rightarrow> (True, h'))"

section \<open>The sound catalog\<close>

datatype context_kind = Action | Dialogue | Ambient | Direct

record pattern =
  regex :: regexp
  kind :: context_kind
    \<comment> \<open>the field \<open>context\<close> of a pattern\<close>

record soundData =
  variations :: "string list"
  patterns :: "pattern list"
  excludePatterns :: "regexp list option"
    \<comment> \<open>\<open>None\<close> where the entry has no \<open>excludePatterns\<close> field\<close>

type_synonym library = "(string \<times> (string \<times> soundData) list) list"
  \<comment> \<open>categories and their sounds, in the order of \<open>Object.entries\<close>\<close>

fun seqs :: "rx list \<Rightarrow> rx" where
  "seqs [] = Lit []"
| "seqs [r] = r"
| "seqs (r # rs) = Seq r (seqs rs)"

fun alts :: "rx list \<Rightarrow> rx" where
  "alts [] = Lit []"
| "alts [r] = r"
| "alts (r # rs) = Alt r (alts rs)"

definition opt :: "rx \<Rightarrow> rx" where "opt r = Rep 0 (Some 1) r"
definition many :: "rx \<Rightarrow> rx" where "many r = Rep 0 None r"
definition many1 :: "rx \<Rightarrow> rx" where "many1 r = Rep 1 None r"
definition oneOf :: "string list \<Rightarrow> rx" where "oneOf ws = alts (map Lit ws)"
definition quote :: rx where "quote = Lit [CHR 0x22]"
definition notQuote :: rx where "notQuote = Cls (NoneOf [CHR 0x22])"

definition gi :: "nat \<Rightarrow> rx \<Rightarrow> regexp" where
  \<comment> \<open>a literal \<open>/.../gi\<close>; the number names the object\<close>
  "gi n r = \<lparr>oid = n, body = r, flag_i = True, flag_g = True\<rparr>"

definition pat :: "nat \<Rightarrow> rx \<Rightarrow> context_kind \<Rightarrow> pattern" where
  "pat n r k = \<lparr>regex = gi n r, kind = k\<rparr>"

definition negated :: "string list \<Rightarrow> string list \<Rightarrow> rx" where
  \<comment> \<open>\<open>\b(?:a|b)\s+(?:\w+\s+){0,2}(?:x|y)\<close>\<close>
  "negated ns vs =
     seqs [Bound, oneOf ns, many1 (Cls Space),
           Rep 0 (Some 2) (Seq (many1 (Cls Word)) (many1 (Cls Space))), oneOf vs]"

subsection \<open>The patterns, one constant for each literal\<close>

definition laugh_action :: rx where
  \<comment> \<open>\<open>\b(laughed|laughing|giggles?|giggling|chuckles?|chuckling)\b\<close>\<close>
  "laugh_action =
     seqs [Bound, alts [Lit ''laughed'', Lit ''laughing'', Seq (Lit ''giggle'') (opt (Lit ''s'')),
             Lit ''giggling'', Seq (Lit ''chuckle'') (opt (Lit ''s'')), Lit ''chuckling''],
           Bound]"

definition laugh_direct :: rx where
  \<comment> \<open>\<open>\b(haha|hehe|lol)\b\<close>\<close>
  "laugh_direct = seqs [Bound, oneOf [''haha'', ''hehe'', ''lol''], Bound]"

definition laugh_dialogue :: rx where
  \<comment> \<open>\<open>"[^"]*(?:ha|he){2,}[^"]*"\<close>\<close>
  "laugh_dialogue =
     seqs [quote, many notQuote, Rep 2 None (oneOf [''ha'', ''he'']), many notQuote, quote]"

definition laugh_negated :: rx where
  \<comment> \<open>\<open>\b(?:don't|stop|quit|without|no|never)\s+(?:\w+\s+){0,2}(?:laugh|giggl|chuckl)\<close>\<close>
  "laugh_negated =
     negated [''don't'', ''stop'', ''quit'', ''without'', ''no'', ''never'']
       [''laugh'', ''giggl'', ''chuckl'']"

definition laugh_at :: rx where
  \<comment> \<open>\<open>\b(?:laugh|giggl|chuckl)\w*\s+(?:at|about|over)\b\<close>\<close>
  "laugh_at =
     seqs [Bound, oneOf [''laugh'', ''giggl'', ''chuckl''], many (Cls Word), many1 (Cls Space),
           oneOf [''at'', ''about'', ''over''], Bound]"

definition cry_action :: rx where
  \<comment> \<open>\<open>\b(cried|crying|sobbed|sobbing|wept|weeping|tears?\s+(?:fell|stream|flow))\<close>\<close>
  "cry_action =
     seqs [Bound, alts [Lit ''cried'', Lit ''crying'', Lit ''sobbed'', Lit ''sobbing'',
             Lit ''wept'', Lit ''weeping'',
             seqs [Lit ''tear'', opt (Lit ''s''), many1 (Cls Space),
                   oneOf [''fell'', ''stream'', ''flow'']]]]"

definition cry_dialogue :: rx where
  \<comment> \<open>\<open>"[^"]*(?:\*sniff\*|\*sob\*).*"\<close>\<close>
  "cry_dialogue =
     seqs [quote, many notQuote, oneOf [''*sniff*'', ''*sob*''], many (Cls Dot), quote]"

definition cry_negated :: rx where
  \<comment> \<open>\<open>\b(?:don't|stop|quit|without|no)\s+(?:\w+\s+){0,2}(?:cry|sob|weep)\<close>\<close>
  "cry_negated =
     negated [''don't'', ''stop'', ''quit'', ''without'', ''no''] [''cry'', ''sob'', ''weep'']"

definition sigh_action :: rx where
  \<comment> \<open>\<open>\b(sighed|sighing)\b\<close>\<close>
  "sigh_action = seqs [Bound, oneOf [''sighed'', ''sighing''], Bound]"

definition sigh_dialogue :: rx where
  \<comment> \<open>\<open>"[^"]*\*sigh\*[^"]*"\<close>\<close>
  "sigh_dialogue = seqs [quote, many notQuote, Lit ''*sigh*'', many notQuote, quote]"

definition footsteps_action :: rx where
  \<comment> \<open>\<open>\b(walked|walking|stepped|stepping|strolled|strolling|paced|pacing)\b\<close>\<close>
  "footsteps_action =
     seqs [Bound, oneOf [''walked'', ''walking'', ''stepped'', ''stepping'', ''strolled'',
             ''strolling'', ''paced'', ''pacing''], Bound]"

definition footsteps_direct :: rx where
  \<comment> \<open>\<open>\bfootsteps?\b\<close>\<close>
  "footsteps_direct = seqs [Bound, Lit ''footstep'', opt (Lit ''s''), Bound]"

definition footsteps_negated :: rx where
  \<comment> \<open>\<open>\b(?:stopped|quit|ceased)\s+(?:\w+\s+){0,2}(?:walk|step|stroll|pac)\<close>\<close>
  "footsteps_negated =
     negated [''stopped'', ''quit'', ''ceased''] [''walk'', ''step'', ''stroll'', ''pac'']"

definition door_verb_first :: rx where
  \<comment> \<open>\<open>\b(?:opened|closed|shut|slammed)\s+(?:the\s+)?door\b\<close>\<close>
  "door_verb_first =
     seqs [Bound, oneOf [''opened'', ''closed'', ''shut'', ''slammed''], many1 (Cls Space),
           opt (Seq (Lit ''the'') (many1 (Cls Space))), Lit ''door'', Bound]"

definition door_noun_first :: rx where
  \<comment> \<open>\<open>\bdoor\s+(?:opened|closed|creaked|slammed)\b\<close>\<close>
  "door_noun_first =
     seqs [Bound, Lit ''door'', many1 (Cls Space),
           oneOf [''opened'', ''closed'', ''creaked'', ''slammed''], Bound]"

definition rustle_action :: rx where
  \<comment> \<open>\<open>\b(rustled|rustling|grabbed|grabbing|reached|reaching)\s+(?:for|into|through)\<close>\<close>
  "rustle_action =
     seqs [Bound, oneOf [''rustled'', ''rustling'', ''grabbed'', ''grabbing'', ''reached'',
             ''reaching''], many1 (Cls Space), oneOf [''for'', ''into'', ''through'']]"

definition rustle_direct :: rx where
  \<comment> \<open>\<open>\brustl\w+\<close>\<close>
  "rustle_direct = seqs [Bound, Lit ''rustl'', many1 (Cls Word)]"

definition wind_verb :: rx where
  \<comment> \<open>\<open>\bwind\s+(?:blew|howled|whistled|rustled)\<close>\<close>
  "wind_verb =
     seqs [Bound, Lit ''wind'', many1 (Cls Space),
           oneOf [''blew'', ''howled'', ''whistled'', ''rustled'']]"

definition wind_adjective :: rx where
  \<comment> \<open>\<open>\b(?:gentle|strong|cold)\s+(?:breeze|wind)\b\<close>\<close>
  "wind_adjective =
     seqs [Bound, oneOf [''gentle'', ''strong'', ''cold''], many1 (Cls Space),
           oneOf [''breeze'', ''wind''], Bound]"

definition rain_verb :: rx where
  \<comment> \<open>\<open>\brain\s+(?:fell|pattered|drummed|began)\<close>\<close>
  "rain_verb =
     seqs [Bound, Lit ''rain'', many1 (Cls Space),
           oneOf [''fell'', ''pattered'', ''drummed'', ''began'']]"

definition rain_noun :: rx where
  \<comment> \<open>\<open>\b(?:raindrops?|downpour|drizzl\w+)\b\<close>\<close>
  "rain_noun =
     seqs [Bound, alts [Seq (Lit ''raindrop'') (opt (Lit ''s'')), Lit ''downpour'',
             Seq (Lit ''drizzl'') (many1 (Cls Word))], Bound]"

definition whisper_verb :: rx where
  \<comment> \<open>\<open>\b(whispered|whispering)\b\<close>\<close>
  "whisper_verb = seqs [Bound, oneOf [''whispered'', ''whispering''], Bound]"

definition whisper_quoted :: rx where
  \<comment> \<open>\<open>"[^"]*"\s*(?:she|he|they)\s+whispered\<close>\<close>
  "whisper_quoted =
     seqs [quote, many notQuote, quote, many (Cls Space), oneOf [''she'', ''he'', ''they''],
           many1 (Cls Space), Lit ''whispered'']"

definition shout_verb :: rx where
  \<comment> \<open>\<open>\b(shouted|yelled|screamed|called out)\b\<close>\<close>
  "shout_verb =
     seqs [Bound, oneOf [''shouted'', ''yelled'', ''screamed'', ''called out''], Bound]"

definition shout_quoted :: rx where
  \<comment> \<open>\<open>"[^"]*[!]{2,}[^"]*"\<close>\<close>
  "shout_quoted = seqs [quote, many notQuote, Rep 2 None (Lit ''!''), many notQuote, quote]"

subsection \<open>The sounds\<close>

definition laugh :: soundData where
  "laugh = \<lparr>
     variations = [''laugh1.mp3'', ''giggle.mp3'', ''chuckle.mp3''],
     patterns = [pat 0 laugh_action Action, pat 1 laugh_direct Direct,
                 pat 2 laugh_dialogue Dialogue],
     excludePatterns = Some [gi 3 laugh_negated, gi 4 laugh_at]\<rparr>"

definition cry :: soundData where
  "cry = \<lparr>
     variations = [''cry1.mp3'', ''sob.mp3'', ''weep.mp3''],
     patterns = [pat 5 cry_action Action, pat 6 cry_dialogue Dialogue],
     excludePatterns = Some [gi 7 cry_negated]\<rparr>"

definition sigh :: soundData where
  "sigh = \<lparr>
     variations = [''sigh1.mp3'', ''exhale.mp3''],
     patterns = [pat 8 sigh_action Action, pat 9 sigh_dialogue Dialogue],
     excludePatterns = None\<rparr>"

definition footsteps :: soundData where
  "footsteps = \<lparr>
     variations = [''step1.mp3'', ''step2.mp3'', ''footsteps.mp3''],
     patterns = [pat 10 footsteps_action Action, pat 11 footsteps_direct Direct],
     excludePatterns = Some [gi 12 footsteps_negated]\<rparr>"

definition door :: soundData where
  "door = \<lparr>
     variations = [''door_open.mp3'', ''door_close.mp3'', ''door_creak.mp3''],
     patterns = [pat 13 door_verb_first Action, pat 14 door_noun_first Action],
     excludePatterns = None\<rparr>"

definition rustle :: soundData where
  "rustle = \<lparr>
     variations = [''rustle1.mp3'', ''paper_rustle.mp3'', ''cloth_rustle.mp3''],
     patterns = [pat 15 rustle_action Action, pat 16 rustle_direct Direct],
     excludePatterns = None\<rparr>"

definition wind :: soundData where
  "wind = \<lparr>
     variations = [''wind1.mp3'', ''breeze.mp3''],
     patterns = [pat 17 wind_verb Ambient, pat 18 wind_adjective Ambient],
     excludePatterns = None\<rparr>"

definition rain :: soundData where
  "rain = \<lparr>
     variations = [''rain_light.mp3'', ''rain_heavy.mp3''],
     patterns = [pat 19 rain_verb Ambient, pat 20 rain_noun Ambient],
     excludePatterns = None\<rparr>"

definition whisper :: soundData where
  "whisper = \<lparr>
     variations = [''whisper1.mp3'', ''whisper_soft.mp3''],
     patterns = [pat 21 whisper_verb Dialogue, pat 22 whisper_quoted Dialogue],
     excludePatterns = None\<rparr>"

definition shout :: soundData where
  "shout = \<lparr>
     variations = [''shout1.mp3'', ''yell.mp3''],
     patterns = [pat 23 shout_verb Dialogue, pat 24 shout_quoted Dialogue],
     excludePatterns = None\<rparr>"

definition soundLibrary :: library where
  \<comment> \<open>the catalog of \<open>index.js\<close>\<close>
  "soundLibrary =
     [(''emotions'', [(''laugh'', laugh), (''cry'', cry), (''sigh'', sigh)]),
      (''actions'', [(''footsteps'', footsteps), (''door'', door), (''rustle'', rustle)]),
      (''ambient'', [(''wind'', wind), (''rain'', rain)]),
      (''dialogue'', [(''whisper'', whisper), (''shout'', shout)])]"

definition soundLibrary_part000 :: library where
  \<comment> \<open>the catalog of the second file of \<open>part_000\<close>: the same without \<open>rustle\<close>\<close>
  "soundLibrary_part000 =
     [(''emotions'', [(''laugh'', laugh), (''cry'', cry), (''sigh'', sigh)]),
      (''actions'', [(''footsteps'', footsteps), (''door'', door)]),
      (''ambient'', [(''wind'', wind), (''rain'', rain)]),
      (''dialogue'', [(''whisper'', whisper), (''shout'', shout)])]"

fun getCategoryForSound :: "library \<Rightarrow> string \<Rightarrow> string option" where
  \<comment> \<open>the method of \<open>ContextAnalyzer\<close> in the second file of \<open>part_000\<close>. The class of
      \<open>index.js\<close> does not define it. Sound keys are read among the own keys of the
      catalog: a name every object inherits (\<open>toString\<close>, \<open>constructor\<close>) is found by
      \<open>sounds[soundKey]\<close> and not by \<open>map_of\<close>\<close>
  "getCategoryForSound [] soundKey = None"
| "getCategoryForSound ((category, sounds) # rest) soundKey =
     (case map_of sounds soundKey of
        Some _ \<Rightarrow> Some category
      | None \<Rightarrow> getCategoryForSound rest soundKey)"

definition soundDataOf :: "library \<Rightarrow> string \<Rightarrow> soundData option" where
  \<comment> \<open>\<open>soundLibrary[getCategoryForSound(soundKey)]?.[soundKey]\<close>\<close>
  "soundDataOf lib soundKey =
     (case getCategoryForSound lib soundKey of
        None \<Rightarrow> None
      | Some category \<Rightarrow>
          (case map_of lib category of None \<Rightarrow> None | Some sounds \<Rightarrow> map_of sounds soundKey))"

section \<open>The context extractor\<close>

fun findSentence :: "string list \<Rightarrow> nat \<Rightarrow> nat \<Rightarrow> string" where
  "findSentence [] currentPos position = []"
| "findSentence (s # ss) currentPos position =
     (if position < currentPos + length s then trim s
      else findSentence ss (currentPos + length s + 1) position)"

definition extractSentence :: "string \<Rightarrow> nat \<Rightarrow> string" where
  "extractSentence text position = findSentence (split_runs isTerminator text) 0 position"

fun findWordIndex :: "string list \<Rightarrow> nat \<Rightarrow> nat \<Rightarrow> nat \<Rightarrow> nat" where
  \<comment> \<open>the loop of \<open>getSurroundingWords\<close> from index \<open>i\<close> on: \<open>wordIndex\<close> when it ends\<close>
  "findWordIndex [] i currentPos position = 0"
| "findWordIndex (w # ws) i currentPos position =
     (if position < currentPos then i
      else findWordIndex ws (Suc i) (currentPos + length w + 1) position)"

definition getSurroundingWords :: "string \<Rightarrow> nat \<Rightarrow> nat \<Rightarrow> string" where
  "getSurroundingWords text position wordCount =
     (let words = split_runs isSpaceChar text;
          wordIndex = findWordIndex words 0 0 position;
          start = nat (max 0 (int wordIndex - int wordCount));
          stop = min (length words) (wordIndex + wordCount)
      in join (take (stop - start) (drop start words)))"

section \<open>The scorer\<close>

datatype reason = no_match | excluded_by_pattern | ai_analyzed | pattern_analyzed

record MatchContext =
  sentence :: string
  surrounding :: string
  position :: "real option"
    \<comment> \<open>\<open>match.index / text.length\<close>; \<open>None\<close> is the \<open>NaN\<close> of an empty text\<close>
  match_text :: string

record AnalysisResult =
  score :: real
  reason :: reason
  ctx :: "MatchContext option"
  matched :: "string option"

datatype js_error = TypeError

datatype variant = IndexJs | Part000
  \<comment> \<open>the two copies of the engine: \<open>index.js\<close>, and the second file of \<open>part_000\<close>.
      They differ in three places, each marked below: \<open>index.js\<close> calls
      \<open>getCategoryForSound\<close> on a class that has no such method, the oracle exists in
      \<open>index.js\<close> only, and \<open>part_000\<close> alone awaits the analysis in \<open>playSound\<close>\<close>

definition call_getCategoryForSound ::
  "variant \<Rightarrow> library \<Rightarrow> string \<Rightarrow> js_error + string option" where
  \<comment> \<open>the call \<open>this.getCategoryForSound(soundKey)\<close>, and
      \<open>this.contextAnalyzer.getCategoryForSound(soundKey)\<close>. In \<open>index.js\<close> the
      property is \<open>undefined\<close> and calling it throws a \<open>TypeError\<close>\<close>
  "call_getCategoryForSound v lib soundKey =
     (case v of
        IndexJs \<Rightarrow> Inl TypeError
      | Part000 \<Rightarrow> Inr (getCategoryForSound lib soundKey))"

datatype reply = Text string | NotText | Rejected
  \<comment> \<open>what \<open>generateQuietPrompt\<close> gives: a string, another value, or an exception\<close>

record settings =
  enabled :: bool
  maxConcurrentSounds :: nat
  preventRepeatMs :: int
  contextSensitivity :: real
  useAiAnalysis :: bool
  enabledCategories :: "string \<Rightarrow> bool"

record world =
  generateQuietPrompt :: "string \<Rightarrow> string \<Rightarrow> string \<Rightarrow> reply"
    \<comment> \<open>the reply to the prompt built from the sound key, the sentence and the
        surrounding words\<close>
  now :: int
    \<comment> \<open>\<open>Date.now()\<close>, one reading for the calls of one message\<close>
  random :: "string \<Rightarrow> real"
    \<comment> \<open>\<open>Math.random()\<close> as drawn for a sound key: at least 0, below 1\<close>
  start_throws :: "string \<Rightarrow> bool"
    \<comment> \<open>whether the audio backend throws while starting the buffer of an audio key\<close>

record engine =
  lastIndex :: heap
  aiAnalysisEnabled :: bool
  aiAnalysisCache :: "(string \<times> real option) list"
    \<comment> \<open>a \<open>Map\<close>, in insertion order\<close>
  recentSounds :: "string \<rightharpoonup> int"
  audioBuffers :: "string set"
  isInitialized :: bool
  started :: "string list"
    \<comment> \<open>the audio keys whose \<open>source.start()\<close> returned, in order: what was played\<close>

definition past_tense :: rx where
  \<comment> \<open>\<open>\b\w+ed\b\<close>\<close>
  "past_tense = seqs [Bound, many1 (Cls Word), Lit ''ed'', Bound]"

definition participle :: rx where
  \<comment> \<open>\<open>\b\w+ing\b\<close>\<close>
  "participle = seqs [Bound, many1 (Cls Word), Lit ''ing'', Bound]"

definition attribution :: rx where
  \<comment> \<open>\<open>\b(?:she|he|they|I)\s+\w+ed\b\<close>, without the \<open>i\<close> flag\<close>
  "attribution =
     seqs [Bound, oneOf [''she'', ''he'', ''they'', ''I''], many1 (Cls Space), many1 (Cls Word),
           Lit ''ed'', Bound]"

definition dialogue_tag :: rx where
  \<comment> \<open>\<open>\b(?:said|whispered|shouted|asked|replied)\b\<close>\<close>
  "dialogue_tag =
     seqs [Bound, oneOf [''said'', ''whispered'', ''shouted'', ''asked'', ''replied''], Bound]"

definition environment :: rx where
  \<comment> \<open>\<open>\b(?:outside|air|atmosphere|environment|weather)\b\<close>\<close>
  "environment =
     seqs [Bound, oneOf [''outside'', ''air'', ''atmosphere'', ''environment'', ''weather''],
           Bound]"

definition analyzeActionContext :: "MatchContext \<Rightarrow> string \<Rightarrow> real" where
  "analyzeActionContext context soundKey =
     (let s0 = 0;
          s1 = (if rx_test past_tense (sentence context)
                then s0 + 0.2 else s0);
          s2 = (if rx_test participle (sentence context)
                then s1 + 0.1 else s1);
          s3 = (if rx_test attribution (sentence context)
                then s2 + 0.15 else s2)
      in s3)"

definition analyzeDialogueContext :: "MatchContext \<Rightarrow> string \<Rightarrow> real" where
  "analyzeDialogueContext context soundKey =
     (let s0 = 0;
          s1 = (if includes_str (sentence context) [CHR 0x22] then s0 + 0.2 else s0);
          s2 = (if rx_test dialogue_tag (sentence context)
                then s1 + 0.15 else s1)
      in s2)"

definition analyzeAmbientContext :: "MatchContext \<Rightarrow> string \<Rightarrow> real" where
  "analyzeAmbientContext context soundKey =
     (if rx_test environment (surrounding context)
      then 0.2 else 0)"

definition analyzeTemporalContext :: "MatchContext \<Rightarrow> string \<Rightarrow> real" where
  \<comment> \<open>\<open>index.js\<close> only\<close>
  "analyzeTemporalContext context soundKey = 0"

definition positive_words :: "string list" where
  "positive_words = [''happy'', ''joy'', ''cheerful'', ''delighted'', ''pleased'', ''content'']"

definition negative_words :: "string list" where
  "negative_words = [''sad'', ''angry'', ''frustrated'', ''disappointed'', ''upset'', ''annoyed'']"

definition analyzeSentiment :: "MatchContext \<Rightarrow> string \<Rightarrow> real" where
  "analyzeSentiment context soundKey =
     (let s = toLowerCase (sentence context)
      in if includes_str soundKey ''laugh'' \<or> includes_str soundKey ''giggle''
         then (if list_ex (includes_str s) positive_words then 0.1 else 0)
         else if includes_str soundKey ''cry'' \<or> includes_str soundKey ''sob''
         then (if list_ex (includes_str s) negative_words then 0.1 else 0)
         else 0)"

definition heuristic :: "variant \<Rightarrow> pattern \<Rightarrow> MatchContext \<Rightarrow> string \<Rightarrow> AnalysisResult" where
  \<comment> \<open>the pattern-based analysis, from \<open>let score = 0.5\<close> to the last \<open>return\<close>. The
      sums are exact; the doubles of the source round, and \<open>0.5 + 0.2 + 0.1\<close> is below
      \<open>0.8\<close> there. The sums of the scenarios below (\<open>0.7\<close>, \<open>0.85\<close>) are away from
      the threshold\<close>
  "heuristic v p context soundKey =
     (let s0 = 0.5;
          s1 = s0 + (case kind p of
                       Action \<Rightarrow> analyzeActionContext context soundKey
                     | Dialogue \<Rightarrow> analyzeDialogueContext context soundKey
                     | Ambient \<Rightarrow> analyzeAmbientContext context soundKey
                     | Direct \<Rightarrow> 0.3);
          s2 = (case v of IndexJs \<Rightarrow> s1 + analyzeTemporalContext context soundKey
                        | Part000 \<Rightarrow> s1);
          s3 = s2 + analyzeSentiment context soundKey
      in \<lparr>score = max 0 (min 1 s3), reason = pattern_analyzed, ctx = Some context,
          matched = Some (match_text context)\<rparr>)"

subsection \<open>The oracle\<close>

fun digits_value :: "nat \<Rightarrow> string \<Rightarrow> nat" where
  "digits_value acc [] = acc"
| "digits_value acc (c # cs) = digits_value (10 * acc + (of_char c - 48)) cs"

definition parseFloat :: "string \<Rightarrow> real" where
  \<comment> \<open>on the tokens the pattern of \<open>parseAIResponse\<close> can match: digits, and
      optionally a point and more digits. The value is the exact decimal, where the
      source has the nearest double\<close>
  "parseFloat tok =
     (let whole = takeWhile isDigitChar tok; rest = dropWhile isDigitChar tok
      in real (digits_value 0 whole) +
         (case rest of
            [] \<Rightarrow> 0
          | c # ds \<Rightarrow>
              if c = CHR ''.'' then real (digits_value 0 ds) / 10 ^ length ds else 0))"

definition score_token :: rx where
  \<comment> \<open>\<open>\b0\.\d+|\b1\.0+|\b0\b|\b1\b\<close>\<close>
  "score_token =
     alts [seqs [Bound, Lit ''0.'', many1 (Cls Digit)],
           seqs [Bound, Lit ''1.'', many1 (Lit ''0'')],
           seqs [Bound, Lit ''0'', Bound],
           seqs [Bound, Lit ''1'', Bound]]"

definition parseAIResponse :: "reply \<Rightarrow> real option" where
  \<comment> \<open>\<open>None\<close> is \<open>null\<close>; a reply that is not a string makes \<open>response.match\<close>
      throw, which \<open>parseAIResponse\<close> catches\<close>
  "parseAIResponse response =
     (case response of
        Text r \<Rightarrow>
          (case rx_search False r score_token 0 of
             None \<Rightarrow> None
           | Some (i, e) \<Rightarrow>
               (let sc = parseFloat (take (e - i) (drop i r))
                in if 0 \<le> sc \<and> sc \<le> 1 then Some sc else None))
      | NotText \<Rightarrow> None
      | Rejected \<Rightarrow> None)"

definition buildAnalysisPrompt ::
  "variant \<Rightarrow> library \<Rightarrow> string \<Rightarrow> MatchContext \<Rightarrow> js_error + string \<times> string \<times> string" where
  \<comment> \<open>the prompt is a function of the sound key, the sentence and the surrounding words;
      building it starts with a call of \<open>getCategoryForSound\<close>\<close>
  "buildAnalysisPrompt v lib soundKey context =
     (case call_getCategoryForSound v lib soundKey of
        Inl e \<Rightarrow> Inl e
      | Inr category \<Rightarrow> Inr (soundKey, sentence context, surrounding context))"

definition analyzeWithAI ::
  "variant \<Rightarrow> library \<Rightarrow> world \<Rightarrow> string \<Rightarrow> MatchContext \<Rightarrow> engine
     \<Rightarrow> real option \<times> engine" where
  \<comment> \<open>the \<open>try\<close> block holds the building of the prompt, the call of the oracle and the
      parsing of the reply: an exception of any of them gives \<open>null\<close>\<close>
  "analyzeWithAI v lib w soundKey context st =
     (let cacheKey = soundKey @ '':'' @ take 50 (sentence context)
      in case map_of (aiAnalysisCache st) cacheKey of
           Some cached \<Rightarrow> (cached, st)
         | None \<Rightarrow>
             (case buildAnalysisPrompt v lib soundKey context of
                Inl e \<Rightarrow> (None, st)
              | Inr (k, s, c) \<Rightarrow>
                  (case generateQuietPrompt w k s c of
                     Rejected \<Rightarrow> (None, st)
                   | response \<Rightarrow>
                       (let sc = parseAIResponse response;
                            cache = aiAnalysisCache st @ [(cacheKey, sc)];
                            cache' = (if 100 < length cache then tl cache else cache)
                        in (sc, st\<lparr>aiAnalysisCache := cache'\<rparr>)))))"

subsection \<open>analyzeContext\<close>

fun anyExcluded :: "regexp list \<Rightarrow> string \<Rightarrow> heap \<Rightarrow> bool \<times> heap" where
  \<comment> \<open>the loop over \<open>excludePatterns\<close>: whether one of them tests true, in order\<close>
  "anyExcluded [] s h = (False, h)"
| "anyExcluded (e # es) s h =
     (case regex_test e s h of
        (True, h') \<Rightarrow> (True, h')
      | (False, h') \<Rightarrow> anyExcluded es s h')"

definition scoreMatch ::
  "variant \<Rightarrow> library \<Rightarrow> settings \<Rightarrow> world \<Rightarrow> string \<Rightarrow> pattern \<Rightarrow> MatchContext \<Rightarrow> engine
     \<Rightarrow> AnalysisResult \<times> engine" where
  \<comment> \<open>\<open>analyzeContext\<close> after the exclusion check. The oracle code is in
      \<open>index.js\<close> only; \<open>analyzeWithAI\<close> catches what it throws\<close>
  "scoreMatch v lib cfg w soundKey p context st =
     (if v = IndexJs \<and> aiAnalysisEnabled st \<and> useAiAnalysis cfg
      then (case analyzeWithAI v lib w soundKey context st of
              (Some aiScore, st') \<Rightarrow>
                (\<lparr>score = aiScore, reason = ai_analyzed, ctx = Some context,
                  matched = Some (match_text context)\<rparr>, st')
            | (None, st') \<Rightarrow> (heuristic v p context soundKey, st'))
      else (heuristic v p context soundKey, st))"

definition analyzeContext ::
  "variant \<Rightarrow> library \<Rightarrow> settings \<Rightarrow> world \<Rightarrow> string \<Rightarrow> string \<Rightarrow> pattern \<Rightarrow> engine
     \<Rightarrow> (js_error + AnalysisResult) \<times> engine" where
  \<comment> \<open>an exception is a rejected promise, \<open>Inl\<close>. The condition of the exclusion
      check calls \<open>getCategoryForSound\<close> first of all: in \<open>index.js\<close> every call
      whose pattern has matched ends there, with the \<open>lastIndex\<close> of the match kept.
      \<open>part_000\<close> reads the catalog as \<open>soundLibrary[category]?.[soundKey]\<close>\<close>
  "analyzeContext v lib cfg w text soundKey p st =
     (case regex_exec (regex p) text (lastIndex st) of
        (None, h) \<Rightarrow>
          (Inr \<lparr>score = 0, reason = no_match, ctx = None, matched = None\<rparr>,
           st\<lparr>lastIndex := h\<rparr>)
      | (Some (index, m), h) \<Rightarrow>
          (let context = \<lparr>sentence = extractSentence text index,
                 surrounding = getSurroundingWords text index 10,
                 position = (if text = [] then None
                             else Some (real index / real (length text))),
                 match_text = m\<rparr>;
               st1 = st\<lparr>lastIndex := h\<rparr>
           in case call_getCategoryForSound v lib soundKey of
                Inl e \<Rightarrow> (Inl e, st1)
              | Inr category \<Rightarrow>
                  (case soundDataOf lib soundKey of
                     None \<Rightarrow>
                       (case scoreMatch v lib cfg w soundKey p context st1 of
                          (a, st2) \<Rightarrow> (Inr a, st2))
                   | Some sd \<Rightarrow>
                       (case excludePatterns sd of
                          None \<Rightarrow>
                            (case scoreMatch v lib cfg w soundKey p context st1 of
                               (a, st2) \<Rightarrow> (Inr a, st2))
                        | Some exs \<Rightarrow>
                            (case anyExcluded exs (sentence context) h of
                               (True, h') \<Rightarrow>
                                 (Inr \<lparr>score = 0, reason = excluded_by_pattern,
                                       ctx = Some context, matched = None\<rparr>,
                                  st\<lparr>lastIndex := h'\<rparr>)
                             | (False, h') \<Rightarrow>
                                 (case scoreMatch v lib cfg w soundKey p context
                                         (st\<lparr>lastIndex := h'\<rparr>) of
                                    (a, st2) \<Rightarrow> (Inr a, st2)))))))"

section \<open>The playback scheduler\<close>

datatype outcome =
    NotReady
  | CategoryOff
  | NoSoundData
  | Cooldown
  | ContextFailed
  | BufferMissing
  | Played string
  | StartFailed
  | Threw js_error
  \<comment> \<open>how a call of \<open>playSound\<close> ends: one of its \<open>return\<close>s, the caught error of
      the backend, or an exception of its own (a rejected promise)\<close>

fun bestOfPatterns ::
  "variant \<Rightarrow> library \<Rightarrow> settings \<Rightarrow> world \<Rightarrow> string \<Rightarrow> string \<Rightarrow> pattern list
     \<Rightarrow> AnalysisResult option \<times> real \<Rightarrow> engine
     \<Rightarrow> (js_error + AnalysisResult option \<times> real) \<times> engine" where
  \<comment> \<open>the loop over \<open>soundData.patterns\<close>, carrying \<open>bestMatch\<close> and \<open>bestScore\<close>.
      \<open>index.js\<close> does not await \<open>analyzeContext\<close>: there \<open>analysis\<close> is a promise,
      \<open>analysis.score\<close> is \<open>undefined\<close> and no comparison with it holds. (No call
      of \<open>playSound\<close> in \<open>index.js\<close> gets as far as this loop.)\<close>
  "bestOfPatterns v lib cfg w text soundKey [] best st = (Inr best, st)"
| "bestOfPatterns v lib cfg w text soundKey (p # ps) best st =
     (case analyzeContext v lib cfg w text soundKey p st of
        (Inl e, st') \<Rightarrow>
          (case v of
             IndexJs \<Rightarrow> bestOfPatterns v lib cfg w text soundKey ps best st'
           | Part000 \<Rightarrow> (Inl e, st'))
      | (Inr analysis, st') \<Rightarrow>
          (case v of
             IndexJs \<Rightarrow> bestOfPatterns v lib cfg w text soundKey ps best st'
           | Part000 \<Rightarrow>
               (if snd best < score analysis \<and> contextSensitivity cfg \<le> score analysis
                then bestOfPatterns v lib cfg w text soundKey ps
                       (Some analysis, score analysis) st'
                else bestOfPatterns v lib cfg w text soundKey ps best st')))"

definition selectVariation :: "world \<Rightarrow> string \<Rightarrow> string list \<Rightarrow> string option \<Rightarrow> string" where
  \<comment> \<open>\<open>variation || variations[Math.floor(Math.random() * variations.length)]\<close>; an
      empty list gives \<open>undefined\<close>, which the audio key spells out\<close>
  "selectVariation w soundKey vs variation =
     (case variation of
        Some (c # cs) \<Rightarrow> c # cs
      | _ \<Rightarrow> (let idx = nat \<lfloor>random w soundKey * real (length vs)\<rfloor>
              in if idx < length vs then vs ! idx else ''undefined''))"

definition playSound ::
  "variant \<Rightarrow> library \<Rightarrow> settings \<Rightarrow> world \<Rightarrow> string \<Rightarrow> string \<Rightarrow> string option \<Rightarrow> engine
     \<Rightarrow> outcome \<times> engine" where
  \<comment> \<open>after the check of \<open>isInitialized\<close> and \<open>enabled\<close> the first statement calls
      \<open>getCategoryForSound\<close>: in \<open>index.js\<close> the call throws, and \<open>playSound\<close>
      ends there with a rejected promise\<close>
  "playSound v lib cfg w soundKey text variation st =
     (if \<not> (isInitialized st \<and> enabled cfg) then (NotReady, st)
      else case call_getCategoryForSound v lib soundKey of
        Inl e \<Rightarrow> (Threw e, st)
      | Inr None \<Rightarrow> (CategoryOff, st)
      | Inr (Some category) \<Rightarrow>
          if \<not> enabledCategories cfg category then (CategoryOff, st)
          else case Option.bind (map_of lib category) (\<lambda>sounds. map_of sounds soundKey) of
            None \<Rightarrow> (NoSoundData, st)
          | Some soundData \<Rightarrow>
              (let lastPlayed = (case recentSounds st soundKey of None \<Rightarrow> 0 | Some t \<Rightarrow> t)
               in if now w - lastPlayed < preventRepeatMs cfg then (Cooldown, st)
                  else case bestOfPatterns v lib cfg w text soundKey (patterns soundData)
                              (None, 0) st of
                    (Inl e, st') \<Rightarrow> (Threw e, st')
                  | (Inr (bestMatch, bestScore), st') \<Rightarrow>
                      if bestMatch = None \<or> bestScore < contextSensitivity cfg
                      then (ContextFailed, st')
                      else (let audioKey = soundKey @ ''_'' @
                                  selectVariation w soundKey (variations soundData) variation
                            in if audioKey \<notin> audioBuffers st' then (BufferMissing, st')
                               else if start_throws w audioKey then (StartFailed, st')
                               else (Played audioKey,
                                     st'\<lparr>recentSounds := (recentSounds st')(soundKey \<mapsto> now w),
                                         started := started st' @ [audioKey]\<rparr>))))"

fun firstTrigger ::
  "variant \<Rightarrow> library \<Rightarrow> settings \<Rightarrow> world \<Rightarrow> string \<Rightarrow> string \<Rightarrow> pattern list \<Rightarrow> engine
     \<Rightarrow> outcome option \<times> engine" where
  \<comment> \<open>the loop over the patterns of one sound in \<open>processMessage\<close>: the first pattern
      that tests true calls \<open>playSound\<close> and ends the loop\<close>
  "firstTrigger v lib cfg w text soundKey [] st = (None, st)"
| "firstTrigger v lib cfg w text soundKey (p # ps) st =
     (case regex_test (regex p) text (lastIndex st) of
        (True, h) \<Rightarrow>
          (case playSound v lib cfg w soundKey text None (st\<lparr>lastIndex := h\<rparr>) of
             (out, st') \<Rightarrow> (Some out, st'))
      | (False, h) \<Rightarrow> firstTrigger v lib cfg w text soundKey ps (st\<lparr>lastIndex := h\<rparr>))"

fun eachSound ::
  "variant \<Rightarrow> library \<Rightarrow> settings \<Rightarrow> world \<Rightarrow> string \<Rightarrow> (string \<times> soundData) list \<Rightarrow> engine
     \<Rightarrow> outcome list \<times> engine" where
  "eachSound v lib cfg w text [] st = ([], st)"
| "eachSound v lib cfg w text ((soundKey, soundData) # rest) st =
     (case firstTrigger v lib cfg w text soundKey (patterns soundData) st of
        (out, st') \<Rightarrow>
          (case eachSound v lib cfg w text rest st' of
             (outs, st'') \<Rightarrow> ((case out of None \<Rightarrow> [] | Some x \<Rightarrow> [x]) @ outs, st'')))"

fun eachCategory ::
  "variant \<Rightarrow> library \<Rightarrow> settings \<Rightarrow> world \<Rightarrow> string \<Rightarrow> library \<Rightarrow> engine
     \<Rightarrow> outcome list \<times> engine" where
  "eachCategory v lib cfg w text [] st = ([], st)"
| "eachCategory v lib cfg w text ((category, sounds) # rest) st =
     (if \<not> enabledCategories cfg category then eachCategory v lib cfg w text rest st
      else case eachSound v lib cfg w text sounds st of
        (outs, st') \<Rightarrow>
          (case eachCategory v lib cfg w text rest st' of
             (outs', st'') \<Rightarrow> (outs @ outs', st'')))"

definition processMessage ::
  "variant \<Rightarrow> library \<Rightarrow> settings \<Rightarrow> world \<Rightarrow> string \<Rightarrow> engine \<Rightarrow> outcome list \<times> engine" where
  \<comment> \<open>the calls of \<open>playSound\<close> are made while the catalog is walked; \<open>promises\<close> holds
      their results, and \<open>splice\<close> shortens that array only. The model runs each call to
      its end where it is made. In \<open>part_000\<close> the calls of one message take turns at
      each \<open>await\<close>; they work on different sound keys and different pattern objects, so
      they start the same buffers and leave the same state. \<open>started\<close> lists the
      buffers in the order of the calls, which need not be the order in which the
      awaits settle: only its members and its length are read below\<close>
  "processMessage v lib cfg w messageText st =
     (if messageText = [] \<or> \<not> isInitialized st then ([], st)
      else case eachCategory v lib cfg w messageText lib st of
        (promises, st') \<Rightarrow>
          (if maxConcurrentSounds cfg < length promises
           then (take (maxConcurrentSounds cfg) promises, st')
           else (promises, st')))"

subsection \<open>The settings and the states the claims are read in\<close>

definition defaultSettings :: settings where
  \<comment> \<open>of the second file of \<open>part_000\<close>; \<open>index.js\<close> has \<open>useAiAnalysis: true\<close>\<close>
  "defaultSettings = \<lparr>enabled = True, maxConcurrentSounds = 3, preventRepeatMs = 2000,
     contextSensitivity = 0.8, useAiAnalysis = False, enabledCategories = (\<lambda>c. True)\<rparr>"

definition allAudioKeys :: "library \<Rightarrow> string list" where
  \<comment> \<open>the keys \<open>loadDefaultSounds\<close> asks for\<close>
  "allAudioKeys lib =
     concat (map (\<lambda>(category, sounds).
       concat (map (\<lambda>(soundKey, soundData).
         map (\<lambda>variation. soundKey @ ''_'' @ variation) (variations soundData)) sounds)) lib)"

definition catalog :: "variant \<Rightarrow> library" where
  \<comment> \<open>the constant \<open>soundLibrary\<close> of each copy\<close>
  "catalog v = (case v of IndexJs \<Rightarrow> soundLibrary | Part000 \<Rightarrow> soundLibrary_part000)"

definition freshEngine :: "variant \<Rightarrow> engine" where
  \<comment> \<open>after \<open>initialize\<close> has loaded every sound of the catalog: no pattern used yet,
      nothing played\<close>
  "freshEngine v = \<lparr>lastIndex = (\<lambda>n. 0), aiAnalysisEnabled = True, aiAnalysisCache = [],
     recentSounds = Map.empty, audioBuffers = set (allAudioKeys (catalog v)),
     isInitialized = True, started = []\<rparr>"

definition quietWorld :: "int \<Rightarrow> world" where
  \<comment> \<open>an oracle that always fails, the first variation drawn, a backend that plays\<close>
  "quietWorld t = \<lparr>generateQuietPrompt = (\<lambda>k s c. Rejected), now = t,
     random = (\<lambda>k. 0), start_throws = (\<lambda>k. False)\<rparr>"

fun is_played :: "outcome \<Rightarrow> bool" where
  "is_played (Played k) = True"
| "is_played out = False"

definition verdict :: "(js_error + AnalysisResult) \<times> engine \<Rightarrow> (real \<times> reason) option" where
  \<comment> \<open>the score and the reason of a result of \<open>analyzeContext\<close>\<close>
  "verdict x = (case fst x of Inl e \<Rightarrow> None | Inr a \<Rightarrow> Some (score a, reason a))"

definition testText :: string where
  \<comment> \<open>the text of \<open>onTestSound\<close>\<close>
  "testText = ''She laughed at the joke and walked to the door.''"

definition testSentence :: string where
  "testSentence = ''She laughed at the joke and walked to the door''"

definition negatedText :: string where
  "negatedText = ''never laughed and she laughed''"

definition crowdedText :: string where
  "crowdedText =
     ''she laughed laughed walked walked '' @ [CHR 0x22] @ ''hm'' @ [CHR 0x22] @
     '' whispered whispered shouted shouted''"

section \<open>The first file of \<open>part_000\<close>: variants and cooldown per action\<close>

record sst_settings =
  sst_enabled :: bool
  sst_volume :: real
  cooldown :: "real option"
    \<comment> \<open>\<open>Number(settings.cooldown)\<close>; \<open>None\<close> is \<open>NaN\<close>\<close>

record sst_state =
  lastPlayed :: "string \<rightharpoonup> real"
  lastVariantIndex :: "string \<rightharpoonup> nat"
  sst_soundLibrary :: "string \<rightharpoonup> string list"
    \<comment> \<open>the variable \<open>soundLibrary\<close> of that file: action to urls\<close>

definition chooseVariant :: "real \<Rightarrow> string \<Rightarrow> sst_state \<Rightarrow> string option \<times> sst_state" where
  \<comment> \<open>the first argument is what \<open>Math.random()\<close> draws\<close>
  "chooseVariant rnd action st =
     (let list = (case sst_soundLibrary st action of None \<Rightarrow> [] | Some l \<Rightarrow> l)
      in if list = [] then (None, st)
         else
           (let idx0 = nat \<lfloor>rnd * real (length list)\<rfloor>;
                lastOr = (case lastVariantIndex st action of
                            None \<Rightarrow> - 1
                          | Some n \<Rightarrow> if n = 0 then - 1 else int n);
                idx = (if 1 < length list \<and> int idx0 = lastOr
                       then (idx0 + 1) mod length list else idx0)
            in (if idx < length list then Some (list ! idx) else None,
                st\<lparr>lastVariantIndex := (lastVariantIndex st)(action \<mapsto> idx)\<rparr>)))"

definition sst_window :: "sst_settings \<Rightarrow> real" where
  \<comment> \<open>\<open>Number(settings.cooldown) || 2.5\<close>\<close>
  "sst_window cfg = (case cooldown cfg of None \<Rightarrow> 2.5 | Some c \<Rightarrow> if c = 0 then 2.5 else c)"

definition playSound_sst ::
  "sst_settings \<Rightarrow> real \<Rightarrow> real \<Rightarrow> string \<Rightarrow> sst_state \<Rightarrow> bool \<times> sst_state" where
  \<comment> \<open>\<open>playSound(action)\<close> of that file, at \<open>Date.now()/1000 = t\<close>. A failing
      \<open>audio.play()\<close> is only logged\<close>
  "playSound_sst cfg t rnd action st =
     (let window = sst_window cfg;
          vetoed = (case lastPlayed st action of
                      None \<Rightarrow> False
                    | Some t0 \<Rightarrow> (if t0 = 0 then False else t - t0 < window))
      in if vetoed then (False, st)
         else (case chooseVariant rnd action st of
                 (None, st') \<Rightarrow> (False, st')
               | (Some url, st') \<Rightarrow>
                   if url = [] then (False, st')
                   else (True, st'\<lparr>lastPlayed := (lastPlayed st')(action \<mapsto> t)\<rparr>)))"

definition sst_folder :: string where
  "sst_folder = ''scripts/extensions/third-party/st-sound-triggers''"

definition sst_defaults :: "string \<rightharpoonup> string list" where
  \<comment> \<open>what \<open>buildSoundLibrary\<close> makes of \<open>ACTION_DEFINITIONS\<close> without user sounds\<close>
  "sst_defaults = map_of
     [(''laugh'', [sst_folder @ ''/sounds/laugh/laugh1.mp3'',
                   sst_folder @ ''/sounds/laugh/laugh2.mp3'']),
      (''footstep'', [sst_folder @ ''/sounds/footstep/step1.mp3'',
                      sst_folder @ ''/sounds/footstep/step2.mp3'']),
      (''rustle'', [sst_folder @ ''/sounds/rustle/rustle1.mp3'',
                    sst_folder @ ''/sounds/rustle/rustle2.mp3'']),
      (''door'', [sst_folder @ ''/sounds/door/open1.mp3'',
                  sst_folder @ ''/sounds/door/close1.mp3'']),
      (''sneeze'', [sst_folder @ ''/sounds/sneeze/sneeze1.mp3'',
                    sst_folder @ ''/sounds/sneeze/sneeze2.mp3'']),
      (''gasp'', [sst_folder @ ''/sounds/gasp/gasp1.mp3'',
                  sst_folder @ ''/sounds/gasp/gasp2.mp3''])]"

definition sst_fresh :: sst_state where
  "sst_fresh = \<lparr>lastPlayed = Map.empty, lastVariantIndex = Map.empty,
     sst_soundLibrary = sst_defaults\<rparr>"

section \<open>The printable characters\<close>

definition lower_letters :: string where
  "lower_letters = ''abcdefghijklmnopqrstuvwxyz''"

definition upper_letters :: string where
  "upper_letters = ''ABCDEFGHIJKLMNOPQRSTUVWXYZ''"

definition digit_characters :: string where
  "digit_characters = ''0123456789''"

definition punctuation :: string where
  "punctuation = ''!#$%&()*+,-./:;<=>?@[]^{|}~'' @ [CHR 0x22, CHR 0x27, CHR 0x5C, CHR 0x60]"

section \<open>Evaluation rules\<close>

text \<open>
  The scenarios below run the model on concrete texts. The simplifier does the running;
  these rules let it step through the recursions on numerals and classify the printable
  ASCII characters in one step each.
\<close>

lemmas char_groups = lower_letters_def upper_letters_def digit_characters_def punctuation_def

lemma word_chars_yes:
  "list_all isWordChar (lower_letters @ upper_letters @ digit_characters @ ''_'')"
  by (simp add: char_groups isWordChar_def)

lemma word_chars_no: "list_all (\<lambda>c. \<not> isWordChar c) ('' '' @ punctuation)"
  by (simp add: char_groups isWordChar_def)

lemma space_chars_yes: "isSpaceChar CHR '' ''"
  by (simp add: isSpaceChar_def)

lemma space_chars_no:
  "list_all (\<lambda>c. \<not> isSpaceChar c)
     (lower_letters @ upper_letters @ digit_characters @ ''_'' @ punctuation)"
  by (simp add: char_groups isSpaceChar_def)

lemma digit_chars_yes: "list_all isDigitChar digit_characters"
  by (simp add: char_groups isDigitChar_def)

lemma digit_chars_no:
  "list_all (\<lambda>c. \<not> isDigitChar c) (lower_letters @ upper_letters @ ''_ '' @ punctuation)"
  by (simp add: char_groups isDigitChar_def)

lemma line_chars_no:
  "list_all (\<lambda>c. \<not> isLineTerminator c)
     (lower_letters @ upper_letters @ digit_characters @ ''_ '' @ punctuation)"
  by (simp add: char_groups isLineTerminator_def)

lemma canon_chars_folded: "map canonicalize lower_letters = upper_letters"
  unfolding char_groups by code_simp

lemma canon_chars_kept:
  "map canonicalize (upper_letters @ digit_characters @ ''_ '' @ punctuation) =
     upper_letters @ digit_characters @ ''_ '' @ punctuation"
  unfolding char_groups by code_simp

lemma lower_chars_folded: "map toLowerChar upper_letters = lower_letters"
  unfolding char_groups by code_simp

lemma lower_chars_kept:
  "map toLowerChar (lower_letters @ digit_characters @ ''_ '' @ punctuation) =
     lower_letters @ digit_characters @ ''_ '' @ punctuation"
  unfolding char_groups by code_simp

lemmas char_rules = char_groups list.pred_inject list.map list.inject append.simps simp_thms

lemmas word_chars = word_chars_yes[unfolded char_rules] word_chars_no[unfolded char_rules]
lemmas space_chars = space_chars_yes space_chars_no[unfolded char_rules]
lemmas digit_chars = digit_chars_yes[unfolded char_rules] digit_chars_no[unfolded char_rules]
lemmas line_chars = line_chars_no[unfolded char_rules]
lemmas canon_chars = canon_chars_folded[unfolded char_rules] canon_chars_kept[unfolded char_rules]
lemmas lower_chars = lower_chars_folded[unfolded char_rules] lower_chars_kept[unfolded char_rules]

lemma scan_numeral:
  "scan ic s r (numeral n) i =
     (case rx_m ic s r i of [] \<Rightarrow> scan ic s r (pred_numeral n) (Suc i) | e # _ \<Rightarrow> Some (i, e))"
  by (simp add: numeral_eq_Suc)

lemma rep_iter_numeral:
  "rep_iter f (numeral n) mn mx i =
     (if mx = Some 0 then [i]
      else concat (map (rep_iter f (pred_numeral n) (mn - 1) (map_option (\<lambda>n. n - 1) mx))
             (filter (\<lambda>j. 0 < mn \<or> i < j) (f i)))
           @ (if mn = 0 then [i] else []))"
  by (simp add: numeral_eq_Suc)

lemma Suc_Suc_0: "Suc (Suc 0) = 2"
  by simp

lemmas rx_eval =
  rx_search_def rx_test_def oneOf_def opt_def many_def many1_def quote_def notQuote_def
  negated_def at_boundary_def Let_def scan_numeral rep_iter_numeral Suc_Suc_0
  word_chars space_chars digit_chars line_chars canon_chars

section \<open>Searching and the state of a pattern\<close>

lemma scan_None_iff:
  "scan ic s r k i = None \<longleftrightarrow> (\<forall>j. i \<le> j \<and> j < i + k \<longrightarrow> rx_m ic s r j = [])"
proof (induction k arbitrary: i)
  case 0
  then show ?case by auto
next
  case (Suc k)
  show ?case
  proof (cases "rx_m ic s r i")
    case Nil
    have "(\<forall>j. i \<le> j \<and> j < i + Suc k \<longrightarrow> rx_m ic s r j = []) \<longleftrightarrow>
          (\<forall>j. Suc i \<le> j \<and> j < Suc i + k \<longrightarrow> rx_m ic s r j = [])"
      using Nil by (metis Suc_leD Suc_le_eq add_Suc add_Suc_right le_neq_implies_less)
    with Nil Suc.IH[of "Suc i"] show ?thesis by simp
  next
    case (Cons e es)
    then have "\<not> (\<forall>j. i \<le> j \<and> j < i + Suc k \<longrightarrow> rx_m ic s r j = [])"
      by (auto intro!: exI[of _ i])
    with Cons show ?thesis by simp
  qed
qed

lemma rx_search_None_later:
  assumes "rx_search ic s r 0 = None"
  shows "rx_search ic s r start = None"
proof -
  from assms have all: "\<forall>j. j < Suc (length s) \<longrightarrow> rx_m ic s r j = []"
    unfolding rx_search_def scan_None_iff by simp
  have "\<forall>j. start \<le> j \<and> j < start + (Suc (length s) - start) \<longrightarrow> rx_m ic s r j = []"
    using all by auto
  then show ?thesis
    unfolding rx_search_def scan_None_iff by blast
qed

lemma regex_exec_None:
  assumes "rx_search (flag_i re) s (body re) 0 = None"
  shows "fst (regex_exec re s h) = None"
  using rx_search_None_later[OF assms]
  by (simp add: regex_exec_def Let_def)

section \<open>No match\<close>

text \<open>
  Claim C9. A trigger pattern that matches nowhere in the text (a search from the start
  of the text finds nothing) makes \<open>analyzeContext\<close> return score 0 with the reason
  \<open>no_match\<close>, whatever the \<open>lastIndex\<close> of the pattern, the sound key, the settings
  and the oracle are.
\<close>

theorem analyzeContext_no_match:
  assumes "rx_search (flag_i (regex p)) text (body (regex p)) 0 = None"
  shows "fst (analyzeContext v lib cfg w text soundKey p st) =
           Inr \<lparr>score = 0, reason = no_match, ctx = None, matched = None\<rparr>"
proof -
  have "fst (regex_exec (regex p) text (lastIndex st)) = None"
    using assms by (rule regex_exec_None)
  then obtain h where "regex_exec (regex p) text (lastIndex st) = (None, h)"
    by (metis prod.collapse)
  then show ?thesis
    by (simp add: analyzeContext_def)
qed

text \<open>
  The example of the claim: no trigger pattern of \<open>laugh\<close> matches
  \<open>You have a nice laugh.\<close>, and each of the three gives \<open>no_match\<close>.
\<close>

lemma nice_laugh_action: "rx_search True ''You have a nice laugh.'' laugh_action 0 = None"
  by (simp add: rx_eval laugh_action_def)

lemma nice_laugh_direct: "rx_search True ''You have a nice laugh.'' laugh_direct 0 = None"
  by (simp add: rx_eval laugh_direct_def)

lemma nice_laugh_dialogue: "rx_search True ''You have a nice laugh.'' laugh_dialogue 0 = None"
  by (simp add: rx_eval laugh_dialogue_def)

theorem analyzeContext_no_match_witness:
  "patterns laugh = [pat 0 laugh_action Action, pat 1 laugh_direct Direct,
                     pat 2 laugh_dialogue Dialogue] \<and>
   rx_search True ''You have a nice laugh.'' laugh_action 0 = None \<and>
   rx_search True ''You have a nice laugh.'' laugh_direct 0 = None \<and>
   rx_search True ''You have a nice laugh.'' laugh_dialogue 0 = None \<and>
   list_all (\<lambda>p. fst (analyzeContext Part000 soundLibrary_part000 defaultSettings (quietWorld 0)
                        ''You have a nice laugh.'' ''laugh'' p (freshEngine Part000)) =
                   Inr \<lparr>score = 0, reason = no_match, ctx = None, matched = None\<rparr>)
     (patterns laugh)"
proof -
  have a: "rx_search (flag_i (regex (pat 0 laugh_action Action))) ''You have a nice laugh.''
             (body (regex (pat 0 laugh_action Action))) 0 = None"
    by (simp add: pat_def gi_def nice_laugh_action)
  have b: "rx_search (flag_i (regex (pat 1 laugh_direct Direct))) ''You have a nice laugh.''
             (body (regex (pat 1 laugh_direct Direct))) 0 = None"
    by (simp add: pat_def gi_def nice_laugh_direct)
  have c: "rx_search (flag_i (regex (pat 2 laugh_dialogue Dialogue))) ''You have a nice laugh.''
             (body (regex (pat 2 laugh_dialogue Dialogue))) 0 = None"
    by (simp add: pat_def gi_def nice_laugh_dialogue)
  show ?thesis
    using analyzeContext_no_match[OF a] analyzeContext_no_match[OF b]
      analyzeContext_no_match[OF c]
    by (simp add: laugh_def nice_laugh_action nice_laugh_direct nice_laugh_dialogue)
qed

section \<open>The window of surrounding words when the offset is past the words\<close>

lemma findWordIndex_zero:
  "currentPos + sum_list (map (\<lambda>w. length w + 1) ws) \<le> pos + 1
     \<Longrightarrow> findWordIndex ws i currentPos pos = 0"
  by (induction ws arbitrary: i currentPos) auto

lemma split_runs_span:
  "sum_list (map (\<lambda>w. length w + 1) (split_runs P s)) \<le> length s + 1"
proof (induction s)
  case Nil
  then show ?case by simp
next
  case (Cons c cs)
  then show ?case
    by (cases "split_runs P cs") (auto split: list.splits)
qed

text \<open>
  Claim C10. When the offset is at or beyond the cumulative span of the words (each word
  counted with one separator), and in particular when it is at or beyond the length of
  the text, the loop of \<open>getSurroundingWords\<close> leaves \<open>wordIndex\<close> at 0 and the
  function returns the first \<open>min wordCount (number of words)\<close> words of the text,
  joined by single spaces.
\<close>

theorem getSurroundingWords_offset_beyond:
  assumes "sum_list (map (\<lambda>w. length w + 1) (split_runs isSpaceChar text)) \<le> pos
           \<or> length text \<le> pos"
  shows "getSurroundingWords text pos wordCount =
           join (take (min wordCount (length (split_runs isSpaceChar text)))
                   (split_runs isSpaceChar text))"
proof -
  let ?ws = "split_runs isSpaceChar text"
  have "sum_list (map (\<lambda>w. length w + 1) ?ws) \<le> pos + 1"
    using assms split_runs_span[of isSpaceChar "text"] by linarith
  then have "findWordIndex ?ws 0 0 pos = 0"
    using findWordIndex_zero[of 0 ?ws pos 0] by simp
  then show ?thesis
    by (simp add: getSurroundingWords_def Let_def min.commute)
qed

theorem getSurroundingWords_offset_beyond_witness:
  "length ''one two three'' \<le> 13 \<and>
   getSurroundingWords ''one two three'' 13 2 = ''one two''"
proof -
  have h: "sum_list (map (\<lambda>w. length w + 1) (split_runs isSpaceChar ''one two three'')) \<le> 13
           \<or> length ''one two three'' \<le> 13"
    by simp
  show ?thesis
    using getSurroundingWords_offset_beyond[OF h, of 2] by (simp add: space_chars)
qed

section \<open>What a call of playSound changes\<close>

lemma analyzeWithAI_frame:
  "analyzeWithAI v lib w soundKey c st = (r, st') \<Longrightarrow>
     recentSounds st' = recentSounds st \<and> audioBuffers st' = audioBuffers st \<and>
     isInitialized st' = isInitialized st \<and> started st' = started st"
  by (auto simp: analyzeWithAI_def Let_def
      split: option.splits reply.splits sum.splits prod.splits)

lemma scoreMatch_frame:
  "scoreMatch v lib cfg w soundKey p c st = (a, st') \<Longrightarrow>
     recentSounds st' = recentSounds st \<and> audioBuffers st' = audioBuffers st \<and>
     isInitialized st' = isInitialized st \<and> started st' = started st"
  by (auto simp: scoreMatch_def split: if_splits prod.splits option.splits
      dest: analyzeWithAI_frame)

lemma analyzeContext_frame:
  "analyzeContext v lib cfg w text soundKey p st = (a, st') \<Longrightarrow>
     recentSounds st' = recentSounds st \<and> audioBuffers st' = audioBuffers st \<and>
     isInitialized st' = isInitialized st \<and> started st' = started st"
  by (auto simp: analyzeContext_def Let_def
      split: prod.splits option.splits sum.splits bool.splits
      dest: scoreMatch_frame)

lemma bestOfPatterns_frame:
  "bestOfPatterns v lib cfg w text soundKey ps best st = (r, st') \<Longrightarrow>
     recentSounds st' = recentSounds st \<and> audioBuffers st' = audioBuffers st \<and>
     isInitialized st' = isInitialized st \<and> started st' = started st"
proof (induction ps arbitrary: best st)
  case Nil
  then show ?case by simp
next
  case (Cons p ps)
  obtain a st1 where a: "analyzeContext v lib cfg w text soundKey p st = (a, st1)"
    by (cases "analyzeContext v lib cfg w text soundKey p st")
  note f = analyzeContext_frame[OF a]
  show ?case
  proof (cases a)
    case (Inl e)
    with Cons.prems a f Cons.IH show ?thesis
      by (cases v) auto
  next
    case (Inr x)
    with Cons.prems a f Cons.IH show ?thesis
      by (cases v) (auto split: if_splits)
  qed
qed

lemma chooseVariant_lastPlayed:
  "lastPlayed (snd (chooseVariant rnd action st)) = lastPlayed st"
  by (simp add: chooseVariant_def Let_def)

text \<open>
  Claim C7. A call of \<open>playSound\<close> writes the timestamp of the sound key only when it
  has started the buffer (the outcome \<open>Played\<close>), and then it writes the time of the call
  for that key and nothing else; on every other outcome (system off or not initialised,
  category off, cooldown, no score reaching the threshold, no audio buffer, a backend
  that throws) the timestamps are as before. The same holds for \<open>playSound\<close> of the
  first file of \<open>part_000\<close> and its \<open>lastPlayed\<close>.
\<close>

theorem recentSounds_only_on_play:
  "recentSounds (snd (playSound v lib cfg w soundKey text variation st)) =
     (if is_played (fst (playSound v lib cfg w soundKey text variation st))
      then (recentSounds st)(soundKey \<mapsto> now w)
      else recentSounds st) \<and>
   lastPlayed (snd (playSound_sst cfg2 t rnd action st2)) =
     (if fst (playSound_sst cfg2 t rnd action st2)
      then (lastPlayed st2)(action \<mapsto> t)
      else lastPlayed st2)"
proof
  show "recentSounds (snd (playSound v lib cfg w soundKey text variation st)) =
     (if is_played (fst (playSound v lib cfg w soundKey text variation st))
      then (recentSounds st)(soundKey \<mapsto> now w)
      else recentSounds st)"
    by (auto simp: playSound_def Let_def
        split: option.splits prod.splits sum.splits dest: bestOfPatterns_frame)
next
  obtain u st3 where c: "chooseVariant rnd action st2 = (u, st3)"
    by (cases "chooseVariant rnd action st2")
  have "lastPlayed st3 = lastPlayed st2"
    using chooseVariant_lastPlayed[of rnd action st2] c by simp
  then show "lastPlayed (snd (playSound_sst cfg2 t rnd action st2)) =
     (if fst (playSound_sst cfg2 t rnd action st2)
      then (lastPlayed st2)(action \<mapsto> t)
      else lastPlayed st2)"
    by (auto simp: playSound_sst_def Let_def c split: option.splits)
qed

section \<open>Cooldown\<close>

text \<open>
  The runs of the scenarios: what the patterns and the heuristics find in a text, and the
  definitions the simplifier unfolds to run the engine.
\<close>

lemma she_laughed_action: "rx_search True ''she laughed'' laugh_action 0 = Some (4, 11)"
  by (simp add: rx_eval laugh_action_def)

lemma she_laughed_direct: "rx_search True ''she laughed'' laugh_direct 0 = None"
  by (simp add: rx_eval laugh_direct_def)

lemma she_laughed_dialogue: "rx_search True ''she laughed'' laugh_dialogue 0 = None"
  by (simp add: rx_eval laugh_dialogue_def)

lemma she_laughed_negated: "rx_search True ''she laughed'' laugh_negated 0 = None"
  by (simp add: rx_eval laugh_negated_def)

lemma she_laughed_at: "rx_search True ''she laughed'' laugh_at 0 = None"
  by (simp add: rx_eval laugh_at_def)

lemma she_laughed_sentence: "extractSentence ''she laughed'' 4 = ''she laughed''"
  by (simp add: extractSentence_def isTerminator_def trim_def space_chars)

lemma she_laughed_heuristics:
  "rx_test past_tense ''she laughed'' = True"
  "rx_test participle ''she laughed'' = False"
  "rx_test attribution ''she laughed'' = True"
  by (simp_all add: rx_eval past_tense_def participle_def attribution_def)

lemma she_laughed_sentiment:
  "analyzeSentiment \<lparr>sentence = ''she laughed'', surrounding = x, position = y, match_text = z\<rparr>
     ''laugh'' = 0"
  by (simp add: analyzeSentiment_def toLowerCase_def lower_chars positive_words_def)

lemmas she_laughed = she_laughed_action she_laughed_direct she_laughed_dialogue
  she_laughed_negated she_laughed_at she_laughed_sentence she_laughed_heuristics
  she_laughed_sentiment

lemmas engine_eval = playSound_def analyzeContext_def scoreMatch_def heuristic_def
  call_getCategoryForSound_def
  analyzeActionContext_def analyzeDialogueContext_def analyzeAmbientContext_def
  analyzeTemporalContext_def regex_exec_def regex_test_def pat_def gi_def
  soundDataOf_def selectVariation_def Let_def defaultSettings_def quietWorld_def
  freshEngine_def

lemmas catalog_eval = catalog_def soundLibrary_def soundLibrary_part000_def laugh_def cry_def sigh_def footsteps_def door_def
  rustle_def wind_def rain_def whisper_def shout_def allAudioKeys_def

lemma she_laughed_in_cooldown:
  "playSound Part000 soundLibrary_part000 defaultSettings (quietWorld 6999) ''laugh'' ''she laughed'' None
     ((freshEngine Part000)\<lparr>recentSounds := [''laugh'' \<mapsto> 5000]\<rparr>) =
   (Cooldown, (freshEngine Part000)\<lparr>recentSounds := [''laugh'' \<mapsto> 5000]\<rparr>)"
  by (simp add: engine_eval catalog_eval)

lemma she_laughed_after_cooldown:
  "fst (playSound Part000 soundLibrary_part000 defaultSettings (quietWorld 7000) ''laugh'' ''she laughed''
          None ((freshEngine Part000)\<lparr>recentSounds := [''laugh'' \<mapsto> 5000]\<rparr>)) =
   Played ''laugh_laugh1.mp3''"
  by (simp add: engine_eval catalog_eval she_laughed)

text \<open>
  Claim C6. With the timestamp \<open>t0\<close> recorded for a sound key and the window
  \<open>W = preventRepeatMs\<close>, a call of \<open>playSound\<close> at a time \<open>t1\<close> with \<open>t1 - t0 < W\<close>
  plays nothing and changes nothing; at \<open>t1 = t0 + W\<close> the cooldown no longer stops the
  call (the comparison is strict). The same holds for \<open>playSound\<close> of the first file
  of \<open>part_000\<close>, with its window \<open>Number(settings.cooldown) || 2.5\<close> and a timestamp
  other than 0: there, at \<open>t0 + W\<close>, the call plays whenever a variant is chosen.
\<close>

theorem cooldown_window:
  assumes "recentSounds st soundKey = Some t0"
      and "lastPlayed st2 action = Some s0" and "s0 \<noteq> 0"
  shows "(now w - t0 < preventRepeatMs cfg \<longrightarrow>
            \<not> is_played (fst (playSound v lib cfg w soundKey message variation st)) \<and>
            snd (playSound v lib cfg w soundKey message variation st) = st) \<and>
         (now w = t0 + preventRepeatMs cfg \<longrightarrow>
            fst (playSound v lib cfg w soundKey message variation st) \<noteq> Cooldown) \<and>
         (t - s0 < sst_window cfg2 \<longrightarrow> playSound_sst cfg2 t rnd action st2 = (False, st2)) \<and>
         (t = s0 + sst_window cfg2 \<longrightarrow>
            fst (playSound_sst cfg2 t rnd action st2) =
              (case fst (chooseVariant rnd action st2) of
                 None \<Rightarrow> False | Some url \<Rightarrow> url \<noteq> []))"
proof -
  have a: "now w - t0 < preventRepeatMs cfg \<longrightarrow>
            \<not> is_played (fst (playSound v lib cfg w soundKey message variation st)) \<and>
            snd (playSound v lib cfg w soundKey message variation st) = st"
    using assms(1)
    by (auto simp: playSound_def Let_def split: option.splits prod.splits sum.splits)
  have b: "now w = t0 + preventRepeatMs cfg \<longrightarrow>
            fst (playSound v lib cfg w soundKey message variation st) \<noteq> Cooldown"
    using assms(1)
    by (auto simp: playSound_def Let_def split: option.splits prod.splits sum.splits)
  have c: "t - s0 < sst_window cfg2 \<longrightarrow> playSound_sst cfg2 t rnd action st2 = (False, st2)"
    using assms(2,3) by (simp add: playSound_sst_def Let_def)
  have d: "t = s0 + sst_window cfg2 \<longrightarrow>
            fst (playSound_sst cfg2 t rnd action st2) =
              (case fst (chooseVariant rnd action st2) of
                 None \<Rightarrow> False | Some url \<Rightarrow> url \<noteq> [])"
    using assms(2,3)
    by (auto simp: playSound_sst_def Let_def split: option.splits prod.splits)
  from a b c d show ?thesis by blast
qed

theorem cooldown_window_witness:
  "recentSounds ((freshEngine Part000)\<lparr>recentSounds := [''laugh'' \<mapsto> 5000]\<rparr>) ''laugh'' = Some 5000 \<and>
   fst (playSound Part000 soundLibrary_part000 defaultSettings (quietWorld 6999) ''laugh''
          ''she laughed'' None ((freshEngine Part000)\<lparr>recentSounds := [''laugh'' \<mapsto> 5000]\<rparr>)) = Cooldown \<and>
   fst (playSound Part000 soundLibrary_part000 defaultSettings (quietWorld 7000) ''laugh''
          ''she laughed'' None ((freshEngine Part000)\<lparr>recentSounds := [''laugh'' \<mapsto> 5000]\<rparr>)) =
     Played ''laugh_laugh1.mp3'' \<and>
   lastPlayed (sst_fresh\<lparr>lastPlayed := [''laugh'' \<mapsto> 10]\<rparr>) ''laugh'' = Some 10 \<and>
   playSound_sst \<lparr>sst_enabled = True, sst_volume = 0.8, cooldown = Some 2.5\<rparr> 12 0 ''laugh''
       (sst_fresh\<lparr>lastPlayed := [''laugh'' \<mapsto> 10]\<rparr>) =
     (False, sst_fresh\<lparr>lastPlayed := [''laugh'' \<mapsto> 10]\<rparr>) \<and>
   fst (playSound_sst \<lparr>sst_enabled = True, sst_volume = 0.8, cooldown = Some 2.5\<rparr> 12.5 0
          ''laugh'' (sst_fresh\<lparr>lastPlayed := [''laugh'' \<mapsto> 10]\<rparr>)) = True"
proof -
  have h1: "recentSounds ((freshEngine Part000)\<lparr>recentSounds := [''laugh'' \<mapsto> 5000]\<rparr>) ''laugh'' =
              Some 5000"
    by simp
  have h2: "lastPlayed (sst_fresh\<lparr>lastPlayed := [''laugh'' \<mapsto> 10]\<rparr>) ''laugh'' = Some 10"
    by simp
  have h3: "(10::real) \<noteq> 0"
    by simp
  have v: "fst (chooseVariant 0 ''laugh'' (sst_fresh\<lparr>lastPlayed := [''laugh'' \<mapsto> 10]\<rparr>)) =
             Some (sst_folder @ ''/sounds/laugh/laugh1.mp3'')"
    by (simp add: chooseVariant_def sst_fresh_def sst_defaults_def Let_def)
  note early = cooldown_window[OF h1 h2 h3, where w = "quietWorld 6999"
      and cfg = defaultSettings and v = Part000 and lib = soundLibrary
      and message = "''she laughed''" and variation = None and t = 12
      and ?cfg2.0 = "\<lparr>sst_enabled = True, sst_volume = 0.8, cooldown = Some 2.5\<rparr>"
      and rnd = 0]
  note late = cooldown_window[OF h1 h2 h3, where w = "quietWorld 7000"
      and cfg = defaultSettings and v = Part000 and lib = soundLibrary
      and message = "''she laughed''" and variation = None and t = "12.5"
      and ?cfg2.0 = "\<lparr>sst_enabled = True, sst_volume = 0.8, cooldown = Some 2.5\<rparr>"
      and rnd = 0]
  have e: "playSound_sst \<lparr>sst_enabled = True, sst_volume = 0.8, cooldown = Some 2.5\<rparr> 12 0
             ''laugh'' (sst_fresh\<lparr>lastPlayed := [''laugh'' \<mapsto> 10]\<rparr>) =
           (False, sst_fresh\<lparr>lastPlayed := [''laugh'' \<mapsto> 10]\<rparr>)"
    using early by (simp add: sst_window_def)
  have l: "fst (playSound_sst \<lparr>sst_enabled = True, sst_volume = 0.8, cooldown = Some 2.5\<rparr>
             12.5 0 ''laugh'' (sst_fresh\<lparr>lastPlayed := [''laugh'' \<mapsto> 10]\<rparr>)) = True"
    using late by (simp add: sst_window_def v)
  show ?thesis
    using h1 h2 e l she_laughed_in_cooldown she_laughed_after_cooldown by simp
qed

section \<open>The runs of the scenarios\<close>

text \<open>
  What the patterns of the catalog and of the heuristics find in the texts of the
  scenarios. The text is read by index: its length and its characters are the first
  lemmas of each group.
\<close>

subsection \<open>The text of the test button\<close>

lemma testText_len: "length testText = 47"
  by (simp add: testText_def)

lemma testText_chars:
  "map ((!) testText) (0 # Suc 0 # [2..<47]) =
   ''She laughed at the joke and walked to the door.''"
  by (simp add: testText_def)

lemmas testText_nth = testText_chars[simplified]

lemma testSentence_len: "length testSentence = 46"
  by (simp add: testSentence_def)

lemma testSentence_chars:
  "map ((!) testSentence) (0 # Suc 0 # [2..<46]) =
   ''She laughed at the joke and walked to the door''"
  by (simp add: testSentence_def)

lemmas testSentence_nth = testSentence_chars[simplified]

lemma testText_emotions_all:
  "map (\<lambda>r. rx_search True testText r 0)
     [laugh_action, laugh_direct, laugh_dialogue, laugh_negated, laugh_at, cry_action,
      cry_dialogue, cry_negated, sigh_action, sigh_dialogue] =
   [Some (4, 11), None, None, None, Some (4, 14), None, None, None, None, None]"
  by (simp add: rx_eval testText_len testText_nth
      laugh_action_def laugh_direct_def laugh_dialogue_def laugh_negated_def laugh_at_def
      cry_action_def cry_dialogue_def cry_negated_def sigh_action_def sigh_dialogue_def)

lemmas testText_emotions = testText_emotions_all[unfolded list.map list.inject simp_thms]

lemma testText_actions_all:
  "map (\<lambda>r. rx_search True testText r 0)
     [footsteps_action, footsteps_direct, footsteps_negated, door_verb_first,
      door_noun_first, rustle_action, rustle_direct] =
   [Some (28, 34), None, None, None, None, None, None]"
  by (simp add: rx_eval testText_len testText_nth
      footsteps_action_def footsteps_direct_def footsteps_negated_def door_verb_first_def
      door_noun_first_def rustle_action_def rustle_direct_def)

lemmas testText_actions = testText_actions_all[unfolded list.map list.inject simp_thms]

lemma testText_ambient_all:
  "map (\<lambda>r. rx_search True testText r 0)
     [wind_verb, wind_adjective, rain_verb, rain_noun] =
   [None, None, None, None]"
  by (simp add: rx_eval testText_len testText_nth
      wind_verb_def wind_adjective_def rain_verb_def rain_noun_def)

lemmas testText_ambient = testText_ambient_all[unfolded list.map list.inject simp_thms]

lemma testText_dialogue_all:
  "map (\<lambda>r. rx_search True testText r 0)
     [whisper_verb, whisper_quoted, shout_verb, shout_quoted] =
   [None, None, None, None]"
  by (simp add: rx_eval testText_len testText_nth
      whisper_verb_def whisper_quoted_def shout_verb_def shout_quoted_def)

lemmas testText_dialogue = testText_dialogue_all[unfolded list.map list.inject simp_thms]

lemma testText_later_all:
  "map (\<lambda>r. rx_search True testText r 11)
     [laugh_action] =
   [None]"
  by (simp add: rx_eval testText_len testText_nth
      laugh_action_def)

lemmas testText_later = testText_later_all[unfolded list.map list.inject simp_thms]

lemma testText_latest_all:
  "map (\<lambda>r. rx_search True testText r 34)
     [footsteps_action] =
   [None]"
  by (simp add: rx_eval testText_len testText_nth
      footsteps_action_def)

lemmas testText_latest = testText_latest_all[unfolded list.map list.inject simp_thms]

lemma testSentence_vetoes_all:
  "map (\<lambda>r. rx_search True testSentence r 0)
     [laugh_negated, laugh_at, footsteps_negated] =
   [None, Some (4, 14), None]"
  by (simp add: rx_eval testSentence_len testSentence_nth
      laugh_negated_def laugh_at_def footsteps_negated_def)

lemmas testSentence_vetoes = testSentence_vetoes_all[unfolded list.map list.inject simp_thms]

lemma testSentence_shapes_all:
  "map (\<lambda>r. rx_search False testSentence r 0)
     [past_tense, participle, attribution] =
   [Some (4, 11), None, None]"
  by (simp add: rx_eval testSentence_len testSentence_nth
      past_tense_def participle_def attribution_def)

lemmas testSentence_shapes = testSentence_shapes_all[unfolded list.map list.inject simp_thms]

lemma testText_sentence:
  "extractSentence testText 4 = testSentence"
  "extractSentence testText 28 = testSentence"
  by (simp_all add: extractSentence_def testText_def testSentence_def isTerminator_def
      trim_def space_chars)

lemma testText_nonempty: "testText \<noteq> []"
  by (simp add: testText_def)

lemmas testText_runs = testText_emotions testText_actions testText_ambient testText_dialogue
  testText_later testText_latest testText_len testText_sentence testText_nonempty
  testSentence_len testSentence_vetoes testSentence_shapes

subsection \<open>A text with a negation and two laughs\<close>

lemma negatedText_len: "length negatedText = 29"
  by (simp add: negatedText_def)

lemma negatedText_chars:
  "map ((!) negatedText) (0 # Suc 0 # [2..<29]) =
   ''never laughed and she laughed''"
  by (simp add: negatedText_def)

lemmas negatedText_nth = negatedText_chars[simplified]

lemma negatedText_emotions_all:
  "map (\<lambda>r. rx_search True negatedText r 0)
     [laugh_action, laugh_direct, laugh_dialogue, laugh_negated, laugh_at, cry_action,
      cry_dialogue, cry_negated, sigh_action, sigh_dialogue] =
   [Some (6, 13), None, None, Some (0, 11), None, None, None, None, None, None]"
  by (simp add: rx_eval negatedText_len negatedText_nth
      laugh_action_def laugh_direct_def laugh_dialogue_def laugh_negated_def laugh_at_def
      cry_action_def cry_dialogue_def cry_negated_def sigh_action_def sigh_dialogue_def)

lemmas negatedText_emotions = negatedText_emotions_all[unfolded list.map list.inject simp_thms]

lemma negatedText_actions_all:
  "map (\<lambda>r. rx_search True negatedText r 0)
     [footsteps_action, footsteps_direct, footsteps_negated, door_verb_first,
      door_noun_first, rustle_action, rustle_direct] =
   [None, None, None, None, None, None, None]"
  by (simp add: rx_eval negatedText_len negatedText_nth
      footsteps_action_def footsteps_direct_def footsteps_negated_def door_verb_first_def
      door_noun_first_def rustle_action_def rustle_direct_def)

lemmas negatedText_actions = negatedText_actions_all[unfolded list.map list.inject simp_thms]

lemma negatedText_ambient_all:
  "map (\<lambda>r. rx_search True negatedText r 0)
     [wind_verb, wind_adjective, rain_verb, rain_noun] =
   [None, None, None, None]"
  by (simp add: rx_eval negatedText_len negatedText_nth
      wind_verb_def wind_adjective_def rain_verb_def rain_noun_def)

lemmas negatedText_ambient = negatedText_ambient_all[unfolded list.map list.inject simp_thms]

lemma negatedText_dialogue_all:
  "map (\<lambda>r. rx_search True negatedText r 0)
     [whisper_verb, whisper_quoted, shout_verb, shout_quoted] =
   [None, None, None, None]"
  by (simp add: rx_eval negatedText_len negatedText_nth
      whisper_verb_def whisper_quoted_def shout_verb_def shout_quoted_def)

lemmas negatedText_dialogue = negatedText_dialogue_all[unfolded list.map list.inject simp_thms]

lemma negatedText_second_all:
  "map (\<lambda>r. rx_search True negatedText r 13)
     [laugh_action] =
   [Some (22, 29)]"
  by (simp add: rx_eval negatedText_len negatedText_nth
      laugh_action_def)

lemmas negatedText_second = negatedText_second_all[unfolded list.map list.inject simp_thms]

lemma negatedText_third_all:
  "map (\<lambda>r. rx_search True negatedText r 29)
     [laugh_action] =
   [None]"
  by (simp add: rx_eval negatedText_len negatedText_nth
      laugh_action_def)

lemmas negatedText_third = negatedText_third_all[unfolded list.map list.inject simp_thms]

lemma negatedText_stale_all:
  "map (\<lambda>r. rx_search True negatedText r 11)
     [laugh_negated] =
   [None]"
  by (simp add: rx_eval negatedText_len negatedText_nth
      laugh_negated_def)

lemmas negatedText_stale = negatedText_stale_all[unfolded list.map list.inject simp_thms]

lemma negatedText_shapes_all:
  "map (\<lambda>r. rx_search False negatedText r 0)
     [past_tense, participle, attribution] =
   [Some (6, 13), None, Some (18, 29)]"
  by (simp add: rx_eval negatedText_len negatedText_nth
      past_tense_def participle_def attribution_def)

lemmas negatedText_shapes = negatedText_shapes_all[unfolded list.map list.inject simp_thms]

lemma negatedText_sentence:
  "extractSentence negatedText 6 = negatedText"
  "extractSentence negatedText 22 = negatedText"
  by (simp_all add: extractSentence_def negatedText_def isTerminator_def trim_def space_chars)

lemma negatedText_nonempty: "negatedText \<noteq> []"
  by (simp add: negatedText_def)

lemma negatedText_sentiment:
  "analyzeSentiment \<lparr>sentence = negatedText, surrounding = x, position = y, match_text = z\<rparr>
     ''laugh'' = 0"
  by (simp add: analyzeSentiment_def toLowerCase_def lower_chars positive_words_def
      negatedText_def)

lemmas negatedText_runs = negatedText_emotions negatedText_actions negatedText_ambient
  negatedText_dialogue negatedText_second negatedText_third negatedText_stale
  negatedText_shapes negatedText_len negatedText_sentence negatedText_nonempty
  negatedText_sentiment

subsection \<open>A text with four sounds\<close>

lemma crowdedText_len: "length crowdedText = 74"
  by (simp add: crowdedText_def)

lemma crowdedText_chars:
  "map ((!) crowdedText) (0 # Suc 0 # [2..<74]) =
   ''she laughed laughed walked walked '' @ [CHR 0x22] @ ''hm'' @ [CHR 0x22] @ '' whispered whispered shouted shouted''"
  by (simp add: crowdedText_def)

lemmas crowdedText_nth = crowdedText_chars[simplified]

lemma crowdedText_emotions_all:
  "map (\<lambda>r. rx_search True crowdedText r 0)
     [laugh_action, laugh_direct, laugh_dialogue, laugh_negated, laugh_at, cry_action,
      cry_dialogue, cry_negated, sigh_action, sigh_dialogue] =
   [Some (4, 11), None, None, None, None, None, None, None, None, None]"
  by (simp add: rx_eval crowdedText_len crowdedText_nth
      laugh_action_def laugh_direct_def laugh_dialogue_def laugh_negated_def laugh_at_def
      cry_action_def cry_dialogue_def cry_negated_def sigh_action_def sigh_dialogue_def)

lemmas crowdedText_emotions = crowdedText_emotions_all[unfolded list.map list.inject simp_thms]

lemma crowdedText_actions_all:
  "map (\<lambda>r. rx_search True crowdedText r 0)
     [footsteps_action, footsteps_direct, footsteps_negated, door_verb_first,
      door_noun_first, rustle_action, rustle_direct] =
   [Some (20, 26), None, None, None, None, None, None]"
  by (simp add: rx_eval crowdedText_len crowdedText_nth
      footsteps_action_def footsteps_direct_def footsteps_negated_def door_verb_first_def
      door_noun_first_def rustle_action_def rustle_direct_def)

lemmas crowdedText_actions = crowdedText_actions_all[unfolded list.map list.inject simp_thms]

lemma crowdedText_ambient_all:
  "map (\<lambda>r. rx_search True crowdedText r 0)
     [wind_verb, wind_adjective, rain_verb, rain_noun] =
   [None, None, None, None]"
  by (simp add: rx_eval crowdedText_len crowdedText_nth
      wind_verb_def wind_adjective_def rain_verb_def rain_noun_def)

lemmas crowdedText_ambient = crowdedText_ambient_all[unfolded list.map list.inject simp_thms]

lemma crowdedText_dialogue_all:
  "map (\<lambda>r. rx_search True crowdedText r 0)
     [whisper_verb, whisper_quoted, shout_verb, shout_quoted] =
   [Some (39, 48), None, Some (59, 66), None]"
  by (simp add: rx_eval crowdedText_len crowdedText_nth
      whisper_verb_def whisper_quoted_def shout_verb_def shout_quoted_def)

lemmas crowdedText_dialogue = crowdedText_dialogue_all[unfolded list.map list.inject simp_thms]

lemma crowdedText_laugh_again_all:
  "map (\<lambda>r. rx_search True crowdedText r 11)
     [laugh_action] =
   [Some (12, 19)]"
  by (simp add: rx_eval crowdedText_len crowdedText_nth
      laugh_action_def)

lemmas crowdedText_laugh_again = crowdedText_laugh_again_all[unfolded list.map list.inject simp_thms]

lemma crowdedText_steps_again_all:
  "map (\<lambda>r. rx_search True crowdedText r 26)
     [footsteps_action] =
   [Some (27, 33)]"
  by (simp add: rx_eval crowdedText_len crowdedText_nth
      footsteps_action_def)

lemmas crowdedText_steps_again = crowdedText_steps_again_all[unfolded list.map list.inject simp_thms]

lemma crowdedText_whisper_again_all:
  "map (\<lambda>r. rx_search True crowdedText r 48)
     [whisper_verb] =
   [Some (49, 58)]"
  by (simp add: rx_eval crowdedText_len crowdedText_nth
      whisper_verb_def)

lemmas crowdedText_whisper_again = crowdedText_whisper_again_all[unfolded list.map list.inject simp_thms]

lemma crowdedText_shout_again_all:
  "map (\<lambda>r. rx_search True crowdedText r 66)
     [shout_verb] =
   [Some (67, 74)]"
  by (simp add: rx_eval crowdedText_len crowdedText_nth
      shout_verb_def)

lemmas crowdedText_shout_again = crowdedText_shout_again_all[unfolded list.map list.inject simp_thms]

lemma crowdedText_shapes_all:
  "map (\<lambda>r. rx_search False crowdedText r 0)
     [past_tense, participle, attribution, dialogue_tag] =
   [Some (4, 11), None, Some (0, 11), Some (39, 48)]"
  by (simp add: rx_eval crowdedText_len crowdedText_nth
      past_tense_def participle_def attribution_def dialogue_tag_def)

lemmas crowdedText_shapes = crowdedText_shapes_all[unfolded list.map list.inject simp_thms]

lemma crowdedText_sentence:
  "extractSentence crowdedText 12 = crowdedText"
  "extractSentence crowdedText 27 = crowdedText"
  "extractSentence crowdedText 49 = crowdedText"
  "extractSentence crowdedText 67 = crowdedText"
  by (simp_all add: extractSentence_def crowdedText_def isTerminator_def trim_def space_chars)

lemma crowdedText_nonempty: "crowdedText \<noteq> []"
  by (simp add: crowdedText_def)

lemma crowdedText_quoted: "includes_str crowdedText [CHR 0x22] = True"
  by (simp add: crowdedText_def)

lemma crowdedText_sentiment:
  "analyzeSentiment \<lparr>sentence = crowdedText, surrounding = x, position = y, match_text = z\<rparr>
     ''laugh'' = 0"
  by (simp add: analyzeSentiment_def toLowerCase_def lower_chars positive_words_def
      crowdedText_def)

lemmas crowdedText_runs = crowdedText_emotions crowdedText_actions crowdedText_ambient
  crowdedText_dialogue crowdedText_laugh_again crowdedText_steps_again
  crowdedText_whisper_again crowdedText_shout_again crowdedText_shapes crowdedText_len
  crowdedText_sentence crowdedText_nonempty crowdedText_quoted crowdedText_sentiment

lemma no_sentiment:
  "analyzeSentiment c ''footsteps'' = 0"
  "analyzeSentiment c ''whisper'' = 0"
  "analyzeSentiment c ''shout'' = 0"
  by (simp_all add: analyzeSentiment_def)

lemmas run_eval = processMessage_def verdict_def engine_eval catalog_eval rx_test_def
  no_sentiment

section \<open>The method that \<open>index.js\<close> does not define\<close>

text \<open>
  The class \<open>ContextAnalyzer\<close> of \<open>index.js\<close> has no method \<open>getCategoryForSound\<close>,
  and three places call it. \<open>analyzeContext\<close> returns \<open>no_match\<close> where the pattern
  finds nothing, and rejects with a \<open>TypeError\<close> wherever it finds a match; \<open>playSound\<close>
  rejects as soon as the system is initialised and enabled, with the state as it was;
  \<open>analyzeWithAI\<close> catches the error of \<open>buildAnalysisPrompt\<close>, so the oracle is never
  asked; and no message starts a buffer.
\<close>

lemma analyzeContext_index_js:
  "fst (analyzeContext IndexJs lib cfg w message soundKey p st) =
     (case fst (regex_exec (regex p) message (lastIndex st)) of
        None \<Rightarrow> Inr \<lparr>score = 0, reason = no_match, ctx = None, matched = None\<rparr>
      | Some m \<Rightarrow> Inl TypeError)"
  by (simp add: analyzeContext_def call_getCategoryForSound_def Let_def
      split: prod.splits option.splits)

lemma playSound_index_js:
  "playSound IndexJs lib cfg w soundKey message variation st =
     (if isInitialized st \<and> enabled cfg then (Threw TypeError, st) else (NotReady, st))"
  by (simp add: playSound_def call_getCategoryForSound_def)

lemma analyzeWithAI_index_js:
  assumes "map_of (aiAnalysisCache st) (soundKey @ '':'' @ take 50 (sentence c)) = None"
  shows "analyzeWithAI IndexJs lib w soundKey c st = (None, st)"
  using assms
  by (simp add: analyzeWithAI_def buildAnalysisPrompt_def call_getCategoryForSound_def Let_def)

lemma scoreMatch_index_js:
  assumes "map_of (aiAnalysisCache st) (soundKey @ '':'' @ take 50 (sentence c)) = None"
  shows "scoreMatch IndexJs lib cfg w soundKey p c st = (heuristic IndexJs p c soundKey, st)"
  using analyzeWithAI_index_js[OF assms] by (simp add: scoreMatch_def)

lemma firstTrigger_index_js:
  "started (snd (firstTrigger IndexJs lib cfg w message soundKey ps st)) = started st \<and>
   recentSounds (snd (firstTrigger IndexJs lib cfg w message soundKey ps st)) = recentSounds st \<and>
   isInitialized (snd (firstTrigger IndexJs lib cfg w message soundKey ps st)) = isInitialized st"
proof (induction ps arbitrary: st)
  case Nil
  then show ?case by simp
next
  case (Cons p ps)
  obtain b h where t: "regex_test (regex p) message (lastIndex st) = (b, h)"
    by (cases "regex_test (regex p) message (lastIndex st)")
  show ?case
  proof (cases b)
    case True
    with t show ?thesis
      by (simp add: playSound_index_js)
  next
    case False
    with t Cons.IH[of "st\<lparr>lastIndex := h\<rparr>"] show ?thesis
      by simp
  qed
qed

lemma eachSound_index_js:
  "started (snd (eachSound IndexJs lib cfg w message sounds st)) = started st \<and>
   recentSounds (snd (eachSound IndexJs lib cfg w message sounds st)) = recentSounds st \<and>
   isInitialized (snd (eachSound IndexJs lib cfg w message sounds st)) = isInitialized st"
proof (induction sounds arbitrary: st)
  case Nil
  then show ?case by simp
next
  case (Cons entry sounds)
  obtain soundKey soundData where e: "entry = (soundKey, soundData)"
    by (cases entry)
  obtain out st1 where
    f: "firstTrigger IndexJs lib cfg w message soundKey (patterns soundData) st = (out, st1)"
    by (cases "firstTrigger IndexJs lib cfg w message soundKey (patterns soundData) st")
  obtain outs st2 where g: "eachSound IndexJs lib cfg w message sounds st1 = (outs, st2)"
    by (cases "eachSound IndexJs lib cfg w message sounds st1")
  have "started st1 = started st \<and> recentSounds st1 = recentSounds st \<and>
        isInitialized st1 = isInitialized st"
    using firstTrigger_index_js[of lib cfg w message soundKey "patterns soundData" st] f
    by simp
  with Cons.IH[of st1] e f g show ?case
    by simp
qed

lemma eachCategory_index_js:
  "started (snd (eachCategory IndexJs lib cfg w message cats st)) = started st \<and>
   recentSounds (snd (eachCategory IndexJs lib cfg w message cats st)) = recentSounds st"
proof (induction cats arbitrary: st)
  case Nil
  then show ?case by simp
next
  case (Cons entry cats)
  obtain category sounds where e: "entry = (category, sounds)"
    by (cases entry)
  obtain outs st1 where f: "eachSound IndexJs lib cfg w message sounds st = (outs, st1)"
    by (cases "eachSound IndexJs lib cfg w message sounds st")
  obtain outs' st2 where g: "eachCategory IndexJs lib cfg w message cats st1 = (outs', st2)"
    by (cases "eachCategory IndexJs lib cfg w message cats st1")
  have "started st1 = started st \<and> recentSounds st1 = recentSounds st"
    using eachSound_index_js[of lib cfg w message sounds st] f by simp
  with Cons.IH[of st1] Cons.IH[of st] e f g show ?case
    by simp
qed

lemma processMessage_index_js:
  "started (snd (processMessage IndexJs lib cfg w message st)) = started st \<and>
   recentSounds (snd (processMessage IndexJs lib cfg w message st)) = recentSounds st"
proof -
  obtain outs st1 where g: "eachCategory IndexJs lib cfg w message lib st = (outs, st1)"
    by (cases "eachCategory IndexJs lib cfg w message lib st")
  with eachCategory_index_js[of lib cfg w message lib st] show ?thesis
    by (simp add: processMessage_def)
qed

section \<open>The text of the test button\<close>

lemma testText_laugh:
  "verdict (analyzeContext Part000 soundLibrary_part000 defaultSettings (quietWorld t) testText
              ''laugh'' (pat 0 laugh_action Action) (freshEngine Part000)) =
     Some (0, excluded_by_pattern)"
  by (simp add: run_eval testText_runs)

lemma testText_footsteps:
  "verdict (analyzeContext Part000 soundLibrary_part000 defaultSettings (quietWorld t) testText
              ''footsteps'' (pat 10 footsteps_action Action) (freshEngine Part000)) =
     Some (0.7, pattern_analyzed)"
  by (simp add: run_eval testText_runs)

lemma testText_door:
  "verdict (analyzeContext Part000 soundLibrary_part000 defaultSettings (quietWorld t) testText
              ''door'' (pat 13 door_verb_first Action) (freshEngine Part000)) =
     Some (0, no_match)"
  "verdict (analyzeContext Part000 soundLibrary_part000 defaultSettings (quietWorld t) testText
              ''door'' (pat 14 door_noun_first Action) (freshEngine Part000)) =
     Some (0, no_match)"
  by (simp_all add: run_eval testText_runs)

lemma testText_message:
  "fst (processMessage Part000 soundLibrary_part000 defaultSettings (quietWorld 5000) testText
          (freshEngine Part000)) = [ContextFailed, ContextFailed] \<and>
   started (snd (processMessage Part000 soundLibrary_part000 defaultSettings (quietWorld 5000)
                   testText (freshEngine Part000))) = [] \<and>
   recentSounds (snd (processMessage Part000 soundLibrary_part000 defaultSettings
                        (quietWorld 5000) testText (freshEngine Part000))) = Map.empty"
  by (simp add: run_eval testText_runs)

lemma testText_index_js:
  "fst (analyzeContext IndexJs soundLibrary defaultSettings (quietWorld t) testText ''laugh''
          (pat 0 laugh_action Action) (freshEngine IndexJs)) = Inl TypeError"
  "fst (analyzeContext IndexJs soundLibrary defaultSettings (quietWorld t) testText ''footsteps''
          (pat 10 footsteps_action Action) (freshEngine IndexJs)) = Inl TypeError"
  by (simp_all add: run_eval testText_runs)

lemma testText_message_index_js:
  "fst (processMessage IndexJs soundLibrary defaultSettings (quietWorld t) testText
          (freshEngine IndexJs)) = [Threw TypeError, Threw TypeError] \<and>
   started (snd (processMessage IndexJs soundLibrary defaultSettings (quietWorld t) testText
                   (freshEngine IndexJs))) = [] \<and>
   recentSounds (snd (processMessage IndexJs soundLibrary defaultSettings (quietWorld t) testText
                        (freshEngine IndexJs))) = Map.empty"
  by (simp add: run_eval testText_runs)

text \<open>
  Claim C1 fails on the code. For the text of the test button, with the default
  settings, the oracle off and patterns not used before, no copy of the engine scores
  \<open>laugh\<close> 0.85 and none plays it. In the second file of \<open>part_000\<close> the sentence
  contains \<open>laughed at\<close>, the second exclusion pattern of \<open>laugh\<close> matches it, and the
  action pattern of \<open>laugh\<close> gets score 0 with \<open>excluded_by_pattern\<close>; the action
  pattern of \<open>footsteps\<close> gets 0.7, below the threshold, because the pattern of the
  pronoun bonus is case-sensitive and the sentence starts with \<open>She\<close>; neither pattern
  of \<open>door\<close> matches; and \<open>processMessage\<close> starts no buffer and records no
  timestamp. In \<open>index.js\<close> the calls of \<open>analyzeContext\<close> for \<open>laugh\<close> and
  \<open>footsteps\<close> reject with a \<open>TypeError\<close>, both calls of \<open>playSound\<close> that
  \<open>processMessage\<close> makes reject with it, and nothing is started.
\<close>

theorem testText_plays_nothing:
  "verdict (analyzeContext Part000 soundLibrary_part000 defaultSettings (quietWorld 5000) testText
              ''laugh'' (pat 0 laugh_action Action) (freshEngine Part000)) =
     Some (0, excluded_by_pattern) \<and>
   verdict (analyzeContext Part000 soundLibrary_part000 defaultSettings (quietWorld 5000) testText
              ''footsteps'' (pat 10 footsteps_action Action) (freshEngine Part000)) =
     Some (0.7, pattern_analyzed) \<and>
   verdict (analyzeContext Part000 soundLibrary_part000 defaultSettings (quietWorld 5000) testText
              ''door'' (pat 13 door_verb_first Action) (freshEngine Part000)) =
     Some (0, no_match) \<and>
   verdict (analyzeContext Part000 soundLibrary_part000 defaultSettings (quietWorld 5000) testText
              ''door'' (pat 14 door_noun_first Action) (freshEngine Part000)) =
     Some (0, no_match) \<and>
   fst (processMessage Part000 soundLibrary_part000 defaultSettings (quietWorld 5000) testText
          (freshEngine Part000)) = [ContextFailed, ContextFailed] \<and>
   started (snd (processMessage Part000 soundLibrary_part000 defaultSettings (quietWorld 5000)
                   testText (freshEngine Part000))) = [] \<and>
   recentSounds (snd (processMessage Part000 soundLibrary_part000 defaultSettings
                        (quietWorld 5000) testText (freshEngine Part000))) ''laugh'' = None \<and>
   fst (analyzeContext IndexJs soundLibrary defaultSettings (quietWorld 5000) testText ''laugh''
          (pat 0 laugh_action Action) (freshEngine IndexJs)) = Inl TypeError \<and>
   fst (analyzeContext IndexJs soundLibrary defaultSettings (quietWorld 5000) testText
          ''footsteps'' (pat 10 footsteps_action Action) (freshEngine IndexJs)) = Inl TypeError \<and>
   fst (processMessage IndexJs soundLibrary defaultSettings (quietWorld 5000) testText
          (freshEngine IndexJs)) = [Threw TypeError, Threw TypeError] \<and>
   started (snd (processMessage IndexJs soundLibrary defaultSettings (quietWorld 5000) testText
                   (freshEngine IndexJs))) = [] \<and>
   recentSounds (snd (processMessage IndexJs soundLibrary defaultSettings (quietWorld 5000)
                        testText (freshEngine IndexJs))) ''laugh'' = None"
  using testText_message_index_js[of 5000]
  by (simp add: testText_laugh testText_footsteps testText_door testText_message
      testText_index_js)

section \<open>A sentence that matches an exclusion pattern\<close>

lemma anyExcluded_unused:
  assumes "\<forall>e \<in> set exs. h (oid e) = 0"
      and "\<exists>e \<in> set exs. rx_search (flag_i e) s (body e) 0 \<noteq> None"
  shows "fst (anyExcluded exs s h) = True"
  using assms
proof (induction exs arbitrary: h)
  case Nil
  then show ?case by simp
next
  case (Cons e exs)
  show ?case
  proof (cases "rx_search (flag_i e) s (body e) 0")
    case (Some m)
    with Cons.prems(1) show ?thesis
      by (auto simp: regex_test_def regex_exec_def Let_def split: prod.splits)
  next
    case None
    with Cons.prems(2) have later: "\<exists>e \<in> set exs. rx_search (flag_i e) s (body e) 0 \<noteq> None"
      by auto
    have t: "regex_test e s h = (False, if flag_g e then h(oid e := 0) else h)"
      using None Cons.prems(1) by (simp add: regex_test_def regex_exec_def Let_def)
    have "\<forall>e' \<in> set exs. (if flag_g e then h(oid e := 0) else h) (oid e') = 0"
      using Cons.prems(1) by simp
    from Cons.IH[OF this later] t show ?thesis
      by simp
  qed
qed

text \<open>
  While the exclusion patterns of a sound are unused (\<open>lastIndex\<close> 0), the check is what
  the claim says: a sentence that one of them matches gives score 0 with
  \<open>excluded_by_pattern\<close>, before the oracle and the heuristic are reached.
\<close>

lemma exclusion_wins_when_unused:
  assumes "regex_exec (regex p) text (lastIndex st) = (Some (i, m), h)"
      and "soundDataOf lib soundKey = Some sd" and "excludePatterns sd = Some exs"
      and "\<forall>e \<in> set exs. h (oid e) = 0"
      and "\<exists>e \<in> set exs. rx_search (flag_i e) (extractSentence text i) (body e) 0 \<noteq> None"
  shows "verdict (analyzeContext Part000 lib cfg w text soundKey p st) =
           Some (0, excluded_by_pattern)"
proof -
  obtain h' where "anyExcluded exs (extractSentence text i) h = (True, h')"
    using anyExcluded_unused[OF assms(4,5)] by (metis prod.collapse)
  with assms(1,2,3) show ?thesis
    by (simp add: verdict_def analyzeContext_def call_getCategoryForSound_def Let_def)
qed

lemma negatedText_first_call:
  "verdict (analyzeContext Part000 soundLibrary_part000 defaultSettings (quietWorld t)
              negatedText ''laugh'' (pat 0 laugh_action Action) (freshEngine Part000)) =
     Some (0, excluded_by_pattern)"
  by (simp add: run_eval negatedText_runs)

lemma negatedText_second_call:
  "verdict (analyzeContext Part000 soundLibrary_part000 defaultSettings (quietWorld t)
              negatedText ''laugh'' (pat 0 laugh_action Action)
              (snd (analyzeContext Part000 soundLibrary_part000 defaultSettings (quietWorld t)
                      negatedText ''laugh'' (pat 0 laugh_action Action)
                      (freshEngine Part000)))) =
     Some (0.85, pattern_analyzed)"
  by (simp add: run_eval negatedText_runs)

lemma negatedText_third_message:
  "started (snd (processMessage Part000 soundLibrary_part000 defaultSettings (quietWorld 15000)
     negatedText
     (snd (processMessage Part000 soundLibrary_part000 defaultSettings (quietWorld 10000) negatedText
        (snd (processMessage Part000 soundLibrary_part000 defaultSettings (quietWorld 5000)
           negatedText (freshEngine Part000))))))) = [''laugh_laugh1.mp3'']"
  by (simp add: run_eval negatedText_runs)

text \<open>
  Claim C2 holds of a call that finds the exclusion patterns unused, and fails after
  that: the exclusion patterns carry the \<open>g\<close> flag, so a successful \<open>test\<close> leaves its
  \<open>lastIndex\<close> behind and the next \<open>test\<close> of the pattern starts there. The text is
  \<open>never laughed and she laughed\<close>; it is its own sentence, and the first exclusion
  pattern of \<open>laugh\<close> matches it at index 0. The first call of \<open>analyzeContext\<close> returns
  score 0 with \<open>excluded_by_pattern\<close>; the second call with the same arguments returns
  0.85 with \<open>pattern_analyzed\<close>; and the third of three equal messages plays \<open>laugh\<close>.
\<close>

theorem exclusion_skipped_on_later_call:
  "extractSentence negatedText 6 = negatedText \<and>
   extractSentence negatedText 22 = negatedText \<and>
   rx_search True negatedText laugh_negated 0 = Some (0, 11) \<and>
   verdict (analyzeContext Part000 soundLibrary_part000 defaultSettings (quietWorld 5000) negatedText
              ''laugh'' (pat 0 laugh_action Action) (freshEngine Part000)) =
     Some (0, excluded_by_pattern) \<and>
   verdict (analyzeContext Part000 soundLibrary_part000 defaultSettings (quietWorld 5000) negatedText
              ''laugh'' (pat 0 laugh_action Action)
              (snd (analyzeContext Part000 soundLibrary_part000 defaultSettings (quietWorld 5000)
                      negatedText ''laugh'' (pat 0 laugh_action Action) (freshEngine Part000)))) =
     Some (0.85, pattern_analyzed) \<and>
   started (snd (processMessage Part000 soundLibrary_part000 defaultSettings (quietWorld 15000)
     negatedText
     (snd (processMessage Part000 soundLibrary_part000 defaultSettings (quietWorld 10000) negatedText
        (snd (processMessage Part000 soundLibrary_part000 defaultSettings (quietWorld 5000)
           negatedText (freshEngine Part000))))))) = [''laugh_laugh1.mp3'']"
  using negatedText_first_call[of 5000] negatedText_second_call[of 5000]
  by (simp add: negatedText_sentence negatedText_emotions negatedText_third_message)

section \<open>More sounds than the cap\<close>

lemma crowdedText_message:
  "fst (processMessage Part000 soundLibrary_part000 defaultSettings (quietWorld 5000) crowdedText
          (freshEngine Part000)) =
     [Played ''laugh_laugh1.mp3'', Played ''footsteps_step1.mp3'',
      Played ''whisper_whisper1.mp3''] \<and>
   started (snd (processMessage Part000 soundLibrary_part000 defaultSettings (quietWorld 5000)
                   crowdedText (freshEngine Part000))) =
     [''laugh_laugh1.mp3'', ''footsteps_step1.mp3'', ''whisper_whisper1.mp3'',
      ''shout_shout1.mp3'']"
  by (simp add: run_eval crowdedText_runs)

text \<open>
  Claim C3 fails on the code. \<open>processMessage\<close> calls \<open>playSound\<close> while it fills the
  array of promises, and \<open>splice\<close> shortens the array afterwards: the calls beyond the
  cap have been made. With the default settings (\<open>maxConcurrentSounds\<close> 3) a text that
  triggers \<open>laugh\<close>, \<open>footsteps\<close>, \<open>whisper\<close> and \<open>shout\<close> starts four buffers,
  while three promises are awaited.
\<close>

theorem cap_does_not_limit_dispatch:
  "maxConcurrentSounds defaultSettings = 3 \<and>
   length (fst (processMessage Part000 soundLibrary_part000 defaultSettings (quietWorld 5000)
                  crowdedText (freshEngine Part000))) = 3 \<and>
   length (started (snd (processMessage Part000 soundLibrary_part000 defaultSettings (quietWorld 5000)
                           crowdedText (freshEngine Part000)))) = 4 \<and>
   set (started (snd (processMessage Part000 soundLibrary_part000 defaultSettings (quietWorld 5000)
                        crowdedText (freshEngine Part000)))) =
     {''laugh_laugh1.mp3'', ''footsteps_step1.mp3'', ''whisper_whisper1.mp3'',
      ''shout_shout1.mp3''}"
proof -
  have cap: "maxConcurrentSounds defaultSettings = 3"
    by (simp add: defaultSettings_def)
  show ?thesis
    using cap by (simp add: crowdedText_message)
qed

section \<open>Two calls with the same arguments\<close>

lemma she_laughed_later: "rx_search True ''she laughed'' laugh_action 11 = None"
  by (simp add: rx_eval laugh_action_def)

lemma she_laughed_twice:
  "verdict (analyzeContext Part000 soundLibrary_part000 defaultSettings (quietWorld t)
              ''she laughed'' ''laugh'' (pat 0 laugh_action Action) (freshEngine Part000)) =
     Some (0.85, pattern_analyzed)"
  "verdict (analyzeContext Part000 soundLibrary_part000 defaultSettings (quietWorld t)
              ''she laughed'' ''laugh'' (pat 0 laugh_action Action)
              (snd (analyzeContext Part000 soundLibrary_part000 defaultSettings (quietWorld t)
                      ''she laughed'' ''laugh'' (pat 0 laugh_action Action)
                      (freshEngine Part000)))) =
     Some (0, no_match)"
  by (simp_all add: verdict_def engine_eval catalog_eval she_laughed she_laughed_later)

lemma she_laughed_twice_index_js:
  "fst (analyzeContext IndexJs soundLibrary defaultSettings (quietWorld t) ''she laughed''
          ''laugh'' (pat 0 laugh_action Action) (freshEngine IndexJs)) = Inl TypeError"
  "fst (analyzeContext IndexJs soundLibrary defaultSettings (quietWorld t) ''she laughed''
          ''laugh'' (pat 0 laugh_action Action)
          (snd (analyzeContext IndexJs soundLibrary defaultSettings (quietWorld t)
                  ''she laughed'' ''laugh'' (pat 0 laugh_action Action)
                  (freshEngine IndexJs)))) =
     Inr \<lparr>score = 0, reason = no_match, ctx = None, matched = None\<rparr>"
  by (simp_all add: engine_eval catalog_eval she_laughed she_laughed_later)

text \<open>
  Claim C4 fails on the code. The patterns of the catalog carry the \<open>g\<close> flag, and
  \<open>exec\<close> starts at the \<open>lastIndex\<close> the call before left in the pattern object. With
  the oracle off and the same text \<open>she laughed\<close>, sound key and pattern object, two
  calls in a row differ: in the second file of \<open>part_000\<close> the first returns 0.85
  with \<open>pattern_analyzed\<close> and the second 0 with \<open>no_match\<close>; in \<open>index.js\<close> the
  first rejects with a \<open>TypeError\<close>, after the match, and the second returns 0 with
  \<open>no_match\<close>.
\<close>

theorem analyzeContext_repeated_call:
  "verdict (analyzeContext Part000 soundLibrary_part000 defaultSettings (quietWorld 5000)
              ''she laughed'' ''laugh'' (pat 0 laugh_action Action) (freshEngine Part000)) =
     Some (0.85, pattern_analyzed) \<and>
   verdict (analyzeContext Part000 soundLibrary_part000 defaultSettings (quietWorld 5000)
              ''she laughed'' ''laugh'' (pat 0 laugh_action Action)
              (snd (analyzeContext Part000 soundLibrary_part000 defaultSettings (quietWorld 5000)
                      ''she laughed'' ''laugh'' (pat 0 laugh_action Action)
                      (freshEngine Part000)))) =
     Some (0, no_match) \<and>
   fst (analyzeContext IndexJs soundLibrary defaultSettings (quietWorld 5000) ''she laughed''
          ''laugh'' (pat 0 laugh_action Action) (freshEngine IndexJs)) = Inl TypeError \<and>
   fst (analyzeContext IndexJs soundLibrary defaultSettings (quietWorld 5000) ''she laughed''
          ''laugh'' (pat 0 laugh_action Action)
          (snd (analyzeContext IndexJs soundLibrary defaultSettings (quietWorld 5000)
                  ''she laughed'' ''laugh'' (pat 0 laugh_action Action)
                  (freshEngine IndexJs)))) =
     Inr \<lparr>score = 0, reason = no_match, ctx = None, matched = None\<rparr>"
  by (simp add: she_laughed_twice she_laughed_twice_index_js)

section \<open>The variation after index 0\<close>

text \<open>
  Claim C5 fails on the code. \<open>chooseVariant\<close> compares the drawn index with
  \<open>lastVariantIndex[action] || -1\<close>, and 0 is falsy: after index 0 was chosen, a draw
  of index 0 is kept. With the two default variants of \<open>laugh\<close> and two draws of 0,
  both picks are the first variant. (\<open>playSound\<close> of \<open>index.js\<close> keeps no last
  index at all.)
\<close>

theorem chooseVariant_repeats_first:
  "sst_soundLibrary sst_fresh ''laugh'' =
     Some [sst_folder @ ''/sounds/laugh/laugh1.mp3'', sst_folder @ ''/sounds/laugh/laugh2.mp3''] \<and>
   fst (chooseVariant 0 ''laugh'' sst_fresh) = Some (sst_folder @ ''/sounds/laugh/laugh1.mp3'') \<and>
   lastVariantIndex (snd (chooseVariant 0 ''laugh'' sst_fresh)) ''laugh'' = Some 0 \<and>
   fst (chooseVariant 0 ''laugh'' (snd (chooseVariant 0 ''laugh'' sst_fresh))) =
     Some (sst_folder @ ''/sounds/laugh/laugh1.mp3'')"
  by (simp add: chooseVariant_def sst_fresh_def sst_defaults_def Let_def)

text \<open>
  After any other index the next pick does differ, as the comment in the source says.
\<close>

lemma chooseVariant_avoids_last:
  assumes "sst_soundLibrary st action = Some list" and "1 < length list"
      and "lastVariantIndex st action = Some n" and "0 < n"
  shows "lastVariantIndex (snd (chooseVariant rnd action st)) action \<noteq> Some n"
proof -
  have "(n + 1) mod length list \<noteq> n"
  proof (cases "n + 1 < length list")
    case True
    then show ?thesis by simp
  next
    case False
    show ?thesis
    proof
      assume e: "(n + 1) mod length list = n"
      have "0 < length list"
        using assms(2) by linarith
      then have "(n + 1) mod length list < length list"
        by (rule mod_less_divisor)
      with e False have "n + 1 = length list" by linarith
      with e assms(4) show False by simp
    qed
  qed
  with assms show ?thesis
    by (auto simp: chooseVariant_def Let_def)
qed

section \<open>Replies of the oracle\<close>

lemma reply_one_point_five: "parseAIResponse (Text ''1.5'') = Some 1"
  by (simp add: parseAIResponse_def score_token_def rx_eval parseFloat_def)

lemma reply_one_in_ten: "parseAIResponse (Text ''1/10'') = Some 1"
  by (simp add: parseAIResponse_def score_token_def rx_eval parseFloat_def)

lemma she_laughed_oracle_down:
  "fst (analyzeContext IndexJs soundLibrary (defaultSettings\<lparr>useAiAnalysis := True\<rparr>) w
          ''she laughed'' ''laugh'' (pat 0 laugh_action Action) (freshEngine IndexJs)) =
     Inl TypeError"
  by (simp add: analyzeContext_index_js regex_exec_def pat_def gi_def freshEngine_def
      she_laughed Let_def)

text \<open>
  Claim C8 fails on the code. In \<open>index.js\<close>, with the oracle switched on and
  failing (it throws, or it replies \<open>1.5\<close>), \<open>analyzeContext\<close> for \<open>she laughed\<close>
  and the action pattern of \<open>laugh\<close> ends with a \<open>TypeError\<close>, not with a
  \<open>pattern_analyzed\<close> result: the call of the missing method precedes the \<open>try\<close>
  block of the oracle and is outside it. The oracle itself is never asked there (the
  lemmas \<open>analyzeWithAI_index_js\<close> and \<open>scoreMatch_index_js\<close>). Taken alone,
  \<open>parseAIResponse\<close> does not reject a reply out of range: it searches the reply for
  \<open>0.d\<close>, \<open>1.0\<close>, \<open>0\<close> or \<open>1\<close> between word boundaries and finds \<open>1\<close> in
  \<open>1.5\<close>.
\<close>

theorem scorer_rejects_when_oracle_fails:
  "fst (analyzeContext IndexJs soundLibrary (defaultSettings\<lparr>useAiAnalysis := True\<rparr>)
          (quietWorld 5000) ''she laughed'' ''laugh'' (pat 0 laugh_action Action)
          (freshEngine IndexJs)) = Inl TypeError \<and>
   fst (analyzeContext IndexJs soundLibrary (defaultSettings\<lparr>useAiAnalysis := True\<rparr>)
          ((quietWorld 5000)\<lparr>generateQuietPrompt := (\<lambda>k s c. Text ''1.5'')\<rparr>)
          ''she laughed'' ''laugh'' (pat 0 laugh_action Action) (freshEngine IndexJs)) =
     Inl TypeError \<and>
   parseAIResponse (Text ''1.5'') = Some 1"
  by (simp add: she_laughed_oracle_down reply_one_point_five)

end
